theory Spec2Isabelle
  imports Main "HOL-Library.Word"
begin

section \<open>Values of the program\<close>

text \<open>
  A JavaScript string is a sequence of UTF-16 code units; a code unit is modelled as a
  natural number (every value below 65536 is one) and a string as the list of its code
  units. \<open>str\<close> writes a literal. A \<^verbatim>\<open>Uint8Array\<close> or
  \<^verbatim>\<open>ArrayBuffer\<close> is the list of its bytes. In the cookie option mapping a
  number is an integer (the range in which the arithmetic of a double is exact); in
  the seal/unseal module, where the expiration is computed from an argument of any
  size, a number is a \<open>number\<close>: an integer-valued double, an infinity or NaN.
\<close>

type_synonym byte = "8 word"
type_synonym code_unit = nat
type_synonym jsstring = "code_unit list"

abbreviation str :: "string \<Rightarrow> jsstring" where
  "str s \<equiv> map of_char s"

datatype error = TypeError | InvalidCharacterError

text \<open>
  Numbers of the module. \<^verbatim>\<open>Date.now()\<close> is an integer and \<open>ttlSeconds\<close> is
  specified as one, so the values are the doubles that are integers, the two infinities
  and NaN. The sum or product of two such doubles is the exact integer result rounded
  to the nearest double, ties to the even significand, and an infinity when the rounded
  result reaches \<open>2 ^ 1024\<close>: \<open>double_of_int\<close>, where \<open>bitlen m\<close> is the number of
  binary digits of \<open>m\<close>. Below \<open>2 ^ 53\<close> every integer is a double and the
  arithmetic is exact. The sign of zero is not modelled.
\<close>

datatype number = Fin int | PosInf | NegInf | NaN

function bitlen :: "int \<Rightarrow> nat" where
  "bitlen m = (if m \<le> 0 then 0 else Suc (bitlen (m div 2)))"
  by pat_completeness auto
termination
  by (relation "measure nat") auto

declare bitlen.simps [simp del]

definition double_of_int :: "int \<Rightarrow> number" where
  "double_of_int n =
     (let m = \<bar>n\<bar>
      in if m < 2 ^ 53 then Fin n
         else if 2 ^ 1024 \<le> m then (if n < 0 then NegInf else PosInf)
         else
           (let e = bitlen m - 53;
                q = m div 2 ^ e;
                r = m mod 2 ^ e;
                half = 2 ^ (e - 1);
                q' = (if half < r \<or> (r = half \<and> odd q) then q + 1 else q);
                v = q' * 2 ^ e
            in if 2 ^ 1024 \<le> v then (if n < 0 then NegInf else PosInf)
               else Fin (if n < 0 then - v else v)))"

fun js_mul :: "number \<Rightarrow> number \<Rightarrow> number" where
  "js_mul (Fin a) (Fin b) = double_of_int (a * b)"
| "js_mul NaN y = NaN"
| "js_mul x NaN = NaN"
| "js_mul PosInf (Fin b) = (if b = 0 then NaN else if b < 0 then NegInf else PosInf)"
| "js_mul NegInf (Fin b) = (if b = 0 then NaN else if b < 0 then PosInf else NegInf)"
| "js_mul (Fin a) PosInf = (if a = 0 then NaN else if a < 0 then NegInf else PosInf)"
| "js_mul (Fin a) NegInf = (if a = 0 then NaN else if a < 0 then PosInf else NegInf)"
| "js_mul PosInf PosInf = PosInf"
| "js_mul NegInf NegInf = PosInf"
| "js_mul PosInf NegInf = NegInf"
| "js_mul NegInf PosInf = NegInf"

fun js_add :: "number \<Rightarrow> number \<Rightarrow> number" where
  "js_add (Fin a) (Fin b) = double_of_int (a + b)"
| "js_add NaN y = NaN"
| "js_add x NaN = NaN"
| "js_add PosInf NegInf = NaN"
| "js_add NegInf PosInf = NaN"
| "js_add PosInf y = PosInf"
| "js_add NegInf y = NegInf"
| "js_add (Fin a) PosInf = PosInf"
| "js_add (Fin a) NegInf = NegInf"

text \<open>\<^verbatim>\<open>x < y\<close>: false when either side is NaN.\<close>

fun js_less :: "number \<Rightarrow> number \<Rightarrow> bool" where
  "js_less (Fin a) (Fin b) = (a < b)"
| "js_less NaN y = False"
| "js_less x NaN = False"
| "js_less PosInf y = False"
| "js_less NegInf NegInf = False"
| "js_less NegInf y = True"
| "js_less (Fin a) PosInf = True"
| "js_less (Fin a) NegInf = False"

section \<open>Cookie option mapping (adapters.ts)\<close>

text \<open>
  \<^verbatim>\<open>Adapter = 'next' | 'express' | 'hono' | 'standard'\<close> is a datatype. A
  \<^verbatim>\<open>CookieOptions\<close> object has optional properties only, so every field is an
  option: \<open>None\<close> is a property the object does not carry. The property
  \<^verbatim>\<open>value\<close> is the field \<open>val\<close>, and the \<^verbatim>\<open>sameSite\<close> value
  \<^verbatim>\<open>'none'\<close> is \<open>NoneSite\<close>.
\<close>

datatype Adapter = Next | Express | Hono | Standard

datatype SameSite = Lax | Strict | NoneSite

record CookieOptions =
  name :: "jsstring option"
  val :: "jsstring option"
  domain :: "jsstring option"
  path :: "jsstring option"
  maxAge :: "int option"
  httpOnly :: "bool option"
  secure :: "bool option"
  sameSite :: "SameSite option"

text \<open>The second argument of \<open>getCookieOptions\<close>:
  \<^verbatim>\<open>Partial<CookieOptions> & { ttlSeconds?: number }\<close>.\<close>

record Overrides = CookieOptions +
  ttlSeconds :: "int option"

definition DEFAULTS :: CookieOptions where
  "DEFAULTS = \<lparr> name = None, val = None, domain = None, path = Some (str ''/''),
      maxAge = None, httpOnly = Some True, secure = Some True, sameSite = Some Lax \<rparr>"

fun toMaxAge :: "int \<Rightarrow> Adapter \<Rightarrow> int" where
  "toMaxAge ttl Express = ttl * 1000"
| "toMaxAge ttl Next = ttl"
| "toMaxAge ttl Hono = ttl"
| "toMaxAge ttl Standard = ttl"

text \<open>One property of an object spread \<^verbatim>\<open>{ ...base, ...over }\<close>: the later object
  wins where it carries the property.\<close>

definition spread_prop :: "'a option \<Rightarrow> 'a option \<Rightarrow> 'a option" where
  "spread_prop base over = (case over of None \<Rightarrow> base | Some v \<Rightarrow> Some v)"

definition spread :: "CookieOptions \<Rightarrow> CookieOptions \<Rightarrow> CookieOptions" where
  "spread base over =
     \<lparr> name = spread_prop (name base) (name over),
       val = spread_prop (val base) (val over),
       domain = spread_prop (domain base) (domain over),
       path = spread_prop (path base) (path over),
       maxAge = spread_prop (maxAge base) (maxAge over),
       httpOnly = spread_prop (httpOnly base) (httpOnly over),
       secure = spread_prop (secure base) (secure over),
       sameSite = spread_prop (sameSite base) (sameSite over) \<rparr>"

text \<open>\<^verbatim>\<open>overrides ?? {}\<close>: an absent argument is the empty object.\<close>

definition no_overrides :: Overrides where
  "no_overrides = \<lparr> name = None, val = None, domain = None, path = None, maxAge = None,
      httpOnly = None, secure = None, sameSite = None, ttlSeconds = None \<rparr>"

text \<open>\<^verbatim>\<open>const { ttlSeconds, ...rest } = overrides ?? {}\<close>: \<open>rest\<close> is the object
  without its \<open>ttlSeconds\<close> property.\<close>

definition rest_of :: "Overrides \<Rightarrow> CookieOptions" where
  "rest_of ov = CookieOptions.truncate ov"

definition getCookieOptions :: "Adapter \<Rightarrow> Overrides option \<Rightarrow> CookieOptions" where
  "getCookieOptions adapter overrides =
     (let ov = (case overrides of None \<Rightarrow> no_overrides | Some o' \<Rightarrow> o');
          opts = spread DEFAULTS (rest_of ov)
      in case ttlSeconds ov of
           Some ttl \<Rightarrow> opts\<lparr> maxAge := Some (toMaxAge ttl adapter) \<rparr>
         | None \<Rightarrow> opts)"

definition clearCookieOptions :: "Adapter \<Rightarrow> CookieOptions option \<Rightarrow> CookieOptions" where
  "clearCookieOptions adapter overrides =
     (let opts = (case overrides of None \<Rightarrow> DEFAULTS | Some ov \<Rightarrow> spread DEFAULTS ov)
      in opts\<lparr> maxAge := Some 0, val := Some [] \<rparr>)"

section \<open>Base64 of the platform: btoa and atob\<close>

text \<open>
  \<open>btoa\<close> and \<open>atob\<close> are built-ins; they are modelled after their definition in
  the HTML standard (forgiving-base64 encode and decode). \<open>sextets\<close> cuts a byte
  sequence into 6-bit groups, three bytes to four groups, the last group of a short
  final chunk filled with zero bits; \<open>unsextets\<close> puts 6-bit groups together again,
  dropping the bits that do not fill a byte.
\<close>

definition b64_alphabet :: jsstring where
  "b64_alphabet = str ''ABCDEFGHIJKLMNOPQRSTUVWXYZabcdefghijklmnopqrstuvwxyz0123456789+/''"

definition b64url_alphabet :: jsstring where
  "b64url_alphabet = str ''ABCDEFGHIJKLMNOPQRSTUVWXYZabcdefghijklmnopqrstuvwxyz0123456789-_''"

fun index_of :: "'a \<Rightarrow> 'a list \<Rightarrow> nat option" where
  "index_of x [] = None"
| "index_of x (y # ys) = (if x = y then Some 0 else map_option Suc (index_of x ys))"

definition b64_char :: "nat \<Rightarrow> code_unit" where
  "b64_char n = b64_alphabet ! n"

definition b64_index :: "code_unit \<Rightarrow> nat option" where
  "b64_index c = index_of c b64_alphabet"

fun sextets :: "nat list \<Rightarrow> nat list" where
  "sextets (a # b # c # r) =
     [a div 4, (a mod 4) * 16 + b div 16, (b mod 16) * 4 + c div 64, c mod 64] @ sextets r"
| "sextets [a, b] = [a div 4, (a mod 4) * 16 + b div 16, (b mod 16) * 4]"
| "sextets [a] = [a div 4, (a mod 4) * 16]"
| "sextets [] = []"

fun unsextets :: "nat list \<Rightarrow> nat list" where
  "unsextets (a # b # c # d # r) =
     [a * 4 + b div 16, (b mod 16) * 16 + c div 4, (c mod 4) * 64 + d] @ unsextets r"
| "unsextets [a, b, c] = [a * 4 + b div 16, (b mod 16) * 16 + c div 4]"
| "unsextets [a, b] = [a * 4 + b div 16]"
| "unsextets [a] = []"
| "unsextets [] = []"

text \<open>\<open>btoa\<close> throws on a code unit above 255, and pads the output with \<open>=\<close> to a
  multiple of four characters.\<close>

definition btoa :: "jsstring \<Rightarrow> error + jsstring" where
  "btoa binary =
     (if list_ex (\<lambda>c. 255 < c) binary then Inl InvalidCharacterError
      else Inr (map b64_char (sextets binary)
                @ replicate ((3 - length binary mod 3) mod 3) (of_char CHR ''='')))"

definition is_ascii_whitespace :: "code_unit \<Rightarrow> bool" where
  "is_ascii_whitespace c \<longleftrightarrow> c = 9 \<or> c = 10 \<or> c = 12 \<or> c = 13 \<or> c = 32"

definition strip_one_eq :: "jsstring \<Rightarrow> jsstring" where
  "strip_one_eq s = (if s \<noteq> [] \<and> last s = of_char CHR ''='' then butlast s else s)"

text \<open>\<open>atob\<close>: ASCII whitespace is removed; when the length is a multiple of four, one
  or two trailing \<open>=\<close> are removed; a length that leaves remainder 1, or a character
  outside the alphabet, throws.\<close>

definition atob :: "jsstring \<Rightarrow> error + jsstring" where
  "atob s =
     (let data = filter (\<lambda>c. \<not> is_ascii_whitespace c) s;
          data = (if length data mod 4 = 0 then strip_one_eq (strip_one_eq data) else data)
      in if length data mod 4 = 1 then Inl InvalidCharacterError
         else case those (map b64_index data) of
                None \<Rightarrow> Inl InvalidCharacterError
              | Some ss \<Rightarrow> Inr (unsextets ss))"

section \<open>The seal/unseal module\<close>

definition SEPARATOR :: code_unit where
  "SEPARATOR = of_char CHR ''.''"

definition IV_LENGTH :: nat where
  "IV_LENGTH = 12"

definition TTL_DEFAULT :: number where
  "TTL_DEFAULT = Fin 300"

text \<open>\<^verbatim>\<open>s.replaceAll(a, b)\<close> for one-character \<open>a\<close> and \<open>b\<close>, and
  \<^verbatim>\<open>s.replace(/=+$/, '')\<close>.\<close>

definition replaceAll :: "char \<Rightarrow> char \<Rightarrow> jsstring \<Rightarrow> jsstring" where
  "replaceAll a b s = map (\<lambda>c. if c = of_char a then of_char b else c) s"

definition strip_trailing_eq :: "jsstring \<Rightarrow> jsstring" where
  "strip_trailing_eq s = rev (dropWhile (\<lambda>c. c = of_char CHR ''='') (rev s))"

text \<open>The loop of \<open>base64UrlEncode\<close> appends \<^verbatim>\<open>String.fromCodePoint(byte)\<close> for
  every byte: the binary string holds the bytes as code units.\<close>

definition base64UrlEncode :: "byte list \<Rightarrow> error + jsstring" where
  "base64UrlEncode bytes =
     (let binary = map unat bytes
      in case btoa binary of
           Inl e \<Rightarrow> Inl e
         | Inr s \<Rightarrow> Inr (strip_trailing_eq
                      (replaceAll CHR ''/'' CHR ''_'' (replaceAll CHR ''+'' CHR ''-'' s))))"

text \<open>The loop of \<open>base64UrlDecode\<close> stores \<^verbatim>\<open>binary.codePointAt(i)\<close> into a
  \<^verbatim>\<open>Uint8Array\<close>, which keeps the low eight bits.\<close>

definition base64UrlDecode :: "jsstring \<Rightarrow> error + byte list" where
  "base64UrlDecode s =
     (let padded = replaceAll CHR ''_'' CHR ''/'' (replaceAll CHR ''-'' CHR ''+'' s)
      in case atob padded of
           Inl e \<Rightarrow> Inl e
         | Inr binary \<Rightarrow> Inr (map of_nat binary))"

text \<open>\<open>toArrayBuffer\<close> returns the bytes of the view, as the buffer itself or as a
  copy of the view's range of it.\<close>

definition toArrayBuffer :: "byte list \<Rightarrow> byte list" where
  "toArrayBuffer view = view"

text \<open>
  A value as \<^verbatim>\<open>JSON.stringify\<close> takes it and as \<^verbatim>\<open>JSON.parse\<close> returns it. An
  object is the list of its properties in enumeration order.
\<close>

datatype json = JNull | JBool bool | JNum number | JStr jsstring | JArr "json list"
  | JObj "(jsstring \<times> json) list"

text \<open>
  The built-ins of the runtime that the module calls and that are not code of the
  repository: \<^verbatim>\<open>TextEncoder\<close>, \<^verbatim>\<open>TextDecoder\<close>, \<^verbatim>\<open>JSON\<close> and
  \<^verbatim>\<open>crypto.subtle\<close>. They are parameters of the model. \<open>json_parse\<close> is \<open>None\<close>
  where \<^verbatim>\<open>JSON.parse\<close> throws, \<open>gcm_decrypt\<close> is \<open>None\<close> where
  \<^verbatim>\<open>crypto.subtle.decrypt\<close> rejects (tag mismatch, bad length). The arguments of
  \<open>gcm_encrypt\<close> and \<open>gcm_decrypt\<close> are key, initialization vector and data. The
  theorems hold for every text encoder; the encoder of the Encoding standard is
  \<open>utf8_encode\<close> below.
\<close>

record platform =
  text_encode :: "jsstring \<Rightarrow> byte list"
  text_decode :: "byte list \<Rightarrow> jsstring"
  json_stringify :: "json \<Rightarrow> jsstring"
  json_parse :: "jsstring \<Rightarrow> json option"
  digest_sha256 :: "byte list \<Rightarrow> byte list"
  gcm_encrypt :: "byte list \<Rightarrow> byte list \<Rightarrow> byte list \<Rightarrow> byte list"
  gcm_decrypt :: "byte list \<Rightarrow> byte list \<Rightarrow> byte list \<Rightarrow> byte list option"

text \<open>\<open>deriveKey\<close>: the key is identified with the raw bytes that
  \<^verbatim>\<open>importKey('raw', hashBuffer, ...)\<close> wraps.\<close>

definition deriveKey :: "platform \<Rightarrow> jsstring \<Rightarrow> byte list" where
  "deriveKey pf secret =
     (let data = text_encode pf secret;
          hashBuffer = digest_sha256 pf data
      in hashBuffer)"

text \<open>\<^verbatim>\<open>crypto.getRandomValues(buf)\<close> fills the given array from the entropy source,
  here a function from positions to bytes.\<close>

definition getRandomValues :: "(nat \<Rightarrow> byte) \<Rightarrow> byte list \<Rightarrow> byte list" where
  "getRandomValues random buf = map random [0 ..< length buf]"

text \<open>The reserved property name \<^verbatim>\<open>_exp\<close>.\<close>

definition EXP :: jsstring where
  "EXP = str ''_exp''"

text \<open>\<^verbatim>\<open>{ ...payload, k: v }\<close>: a property that the payload has keeps its place and
  takes the new value; a new property goes last.\<close>

fun obj_set :: "(jsstring \<times> json) list \<Rightarrow> jsstring \<Rightarrow> json \<Rightarrow> (jsstring \<times> json) list" where
  "obj_set [] k v = [(k, v)]"
| "obj_set (p # ps) k v = (if fst p = k then (k, v) # ps else p # obj_set ps k v)"

text \<open>
  \<open>seal\<close>. The entropy source and the clock (\<^verbatim>\<open>Date.now()\<close>, milliseconds) are
  arguments; \<open>ttl = None\<close> is a call without the third argument.
\<close>

definition seal ::
  "platform \<Rightarrow> (nat \<Rightarrow> byte) \<Rightarrow> int \<Rightarrow> (jsstring \<times> json) list \<Rightarrow> jsstring
     \<Rightarrow> number option \<Rightarrow> error + jsstring" where
  "seal pf random now payload secret ttl =
     (let ttlSeconds = (case ttl of None \<Rightarrow> TTL_DEFAULT | Some t \<Rightarrow> t);
          key = deriveKey pf secret;
          iv = getRandomValues random (replicate IV_LENGTH 0);
          exp = js_add (Fin now) (js_mul ttlSeconds (Fin 1000));
          data = obj_set payload EXP (JNum exp);
          plaintext = text_encode pf (json_stringify pf (JObj data));
          plaintextBuf = toArrayBuffer plaintext;
          ciphertext = gcm_encrypt pf key iv plaintextBuf
      in case base64UrlEncode iv of
           Inl e \<Rightarrow> Inl e
         | Inr ivB64 \<Rightarrow>
             (case base64UrlEncode ciphertext of
                Inl e \<Rightarrow> Inl e
              | Inr ctB64 \<Rightarrow> Inr (ivB64 @ [SEPARATOR] @ ctB64)))"

text \<open>\<^verbatim>\<open>token.split(SEPARATOR)\<close>.\<close>

fun split_on :: "'a \<Rightarrow> 'a list \<Rightarrow> 'a list list" where
  "split_on sep [] = [[]]"
| "split_on sep (c # cs) =
     (if c = sep then [] # split_on sep cs
      else (case split_on sep cs of [] \<Rightarrow> [[c]] | p # ps \<Rightarrow> (c # p) # ps))"

text \<open>\<^verbatim>\<open>data._exp\<close> on a value that \<^verbatim>\<open>JSON.parse\<close> returned: reading a property
  of \<open>null\<close> throws a TypeError; an object gives its own property or \<open>undefined\<close>
  (\<open>None\<close>); a boolean, number, string or array has no property of that name.\<close>

fun get_exp :: "json \<Rightarrow> error + json option" where
  "get_exp JNull = Inl TypeError"
| "get_exp (JObj ps) = Inr (map_of ps EXP)"
| "get_exp _ = Inr None"

text \<open>\<^verbatim>\<open>delete data._exp\<close>.\<close>

fun delete_exp :: "json \<Rightarrow> json" where
  "delete_exp (JObj ps) = JObj (filter (\<lambda>p. fst p \<noteq> EXP) ps)"
| "delete_exp v = v"

text \<open>
  \<open>unseal\<close>. \<open>token = None\<close> is \<open>undefined\<close>; the result \<open>Inr None\<close> is
  \<open>null\<close>, \<open>Inr (Some v)\<close> a returned value and \<open>Inl e\<close> an exception that leaves
  the function (a rejected promise). \<open>now\<close> is what \<^verbatim>\<open>Date.now()\<close> returns at the
  expiration check.
\<close>

definition unseal :: "platform \<Rightarrow> int \<Rightarrow> jsstring option \<Rightarrow> jsstring \<Rightarrow> error + json option" where
  "unseal pf now token secret =
     (case token of
        None \<Rightarrow> Inr None
      | Some tok \<Rightarrow>
          if tok = [] \<or> secret = [] then Inr None
          else
            (case split_on SEPARATOR tok of
               [ivB64, ctB64] \<Rightarrow>
                 (case base64UrlDecode ivB64 of
                    Inl e \<Rightarrow> Inr None
                  | Inr iv \<Rightarrow>
                      (case base64UrlDecode ctB64 of
                         Inl e \<Rightarrow> Inr None
                       | Inr ciphertext \<Rightarrow>
                           (let key = deriveKey pf secret;
                                ctBuf = toArrayBuffer ciphertext
                            in case gcm_decrypt pf key iv ctBuf of
                                 None \<Rightarrow> Inr None
                               | Some plaintext \<Rightarrow>
                                   (let json = text_decode pf plaintext
                                    in case json_parse pf json of
                                         None \<Rightarrow> Inr None
                                       | Some data \<Rightarrow>
                                           (case get_exp data of
                                              Inl e \<Rightarrow> Inl e
                                            | Inr (Some (JNum exp)) \<Rightarrow>
                                                if js_less exp (Fin now) then Inr None
                                                else Inr (Some (delete_exp data))
                                            | Inr _ \<Rightarrow> Inr None)))))
             | _ \<Rightarrow> Inr None))"

section \<open>A small platform for evaluating the model\<close>

text \<open>
  \<^verbatim>\<open>TextEncoder.encode\<close> as the Encoding standard defines it: the code units are
  read as UTF-16, a surrogate pair is one code point, an unpaired surrogate becomes
  U+FFFD, and every code point is written in UTF-8.
\<close>

definition utf8_bytes :: "nat \<Rightarrow> byte list" where
  "utf8_bytes cp =
     (if cp < 128 then [of_nat cp]
      else if cp < 2048 then [of_nat (192 + cp div 64), of_nat (128 + cp mod 64)]
      else if cp < 65536 then
        [of_nat (224 + cp div 4096), of_nat (128 + cp div 64 mod 64), of_nat (128 + cp mod 64)]
      else
        [of_nat (240 + cp div 262144), of_nat (128 + cp div 4096 mod 64),
         of_nat (128 + cp div 64 mod 64), of_nat (128 + cp mod 64)])"

definition is_high_surrogate :: "code_unit \<Rightarrow> bool" where
  "is_high_surrogate c \<longleftrightarrow> 55296 \<le> c \<and> c < 56320"

definition is_low_surrogate :: "code_unit \<Rightarrow> bool" where
  "is_low_surrogate c \<longleftrightarrow> 56320 \<le> c \<and> c < 57344"

fun utf8_encode :: "jsstring \<Rightarrow> byte list" where
  "utf8_encode [] = []"
| "utf8_encode [c] =
     (if is_high_surrogate c \<or> is_low_surrogate c then utf8_bytes 65533 else utf8_bytes c)"
| "utf8_encode (c # d # cs) =
     (if is_high_surrogate c \<and> is_low_surrogate d
      then utf8_bytes (65536 + (c - 55296) * 1024 + (d - 56320)) @ utf8_encode cs
      else if is_high_surrogate c \<or> is_low_surrogate c
      then utf8_bytes 65533 @ utf8_encode (d # cs)
      else utf8_bytes c @ utf8_encode (d # cs))"

declare utf8_encode.simps [simp del]

text \<open>
  Concrete stand-ins for the other built-ins, so that \<open>seal\<close> and \<open>unseal\<close> can be
  run on examples: decoded text is ASCII, the digest pads or cuts to 32 bytes, the
  cipher appends a 16-byte tag made of the initialization vector and the key and checks
  it on decryption, and JSON is a table of the texts used in the examples, in which a
  number that is not finite is written as \<open>null\<close>, as \<^verbatim>\<open>JSON.stringify\<close> does.
  The cipher is not a cipher; it only has the interface and the decrypt-after-encrypt
  behaviour of one.
\<close>

definition demo_tag :: "byte list \<Rightarrow> byte list \<Rightarrow> byte list" where
  "demo_tag key iv = take 16 (iv @ key @ replicate 16 0)"

definition demo_encrypt :: "byte list \<Rightarrow> byte list \<Rightarrow> byte list \<Rightarrow> byte list" where
  "demo_encrypt key iv pt = pt @ demo_tag key iv"

definition demo_decrypt :: "byte list \<Rightarrow> byte list \<Rightarrow> byte list \<Rightarrow> byte list option" where
  "demo_decrypt key iv ct =
     (if 16 \<le> length ct \<and> drop (length ct - 16) ct = demo_tag key iv
      then Some (take (length ct - 16) ct) else None)"

definition demo_json :: "(jsstring \<times> json) list" where
  \<open>demo_json =
     [(str ''{"x":1,"_exp":1000}'', JObj [(str ''x'', JNum (Fin 1)), (EXP, JNum (Fin 1000))]),
      (str ''{"_exp":1000,"x":1}'', JObj [(EXP, JNum (Fin 1000)), (str ''x'', JNum (Fin 1))]),
      (str ''{"x":1,"_exp":null}'', JObj [(str ''x'', JNum (Fin 1)), (EXP, JNull)]),
      (str ''null'', JNull)]\<close>

fun null_of_nonfinite :: "json \<Rightarrow> json" where
  "null_of_nonfinite (JNum (Fin n)) = JNum (Fin n)"
| "null_of_nonfinite (JNum x) = JNull"
| "null_of_nonfinite v = v"

definition demo_stringify :: "json \<Rightarrow> jsstring" where
  "demo_stringify v =
     (let w = (case v of
                 JObj ps \<Rightarrow> JObj (map (\<lambda>p. (fst p, null_of_nonfinite (snd p))) ps)
               | _ \<Rightarrow> null_of_nonfinite v)
      in case find (\<lambda>p. snd p = w) demo_json of Some p \<Rightarrow> fst p | None \<Rightarrow> str ''null'')"

definition demo_platform :: platform where
  "demo_platform =
     \<lparr> text_encode = utf8_encode,
       text_decode = map unat,
       json_stringify = demo_stringify,
       json_parse = map_of demo_json,
       digest_sha256 = (\<lambda>data. take 32 (data @ replicate 32 0)),
       gcm_encrypt = demo_encrypt,
       gcm_decrypt = demo_decrypt \<rparr>"

definition demo_random :: "nat \<Rightarrow> byte" where
  "demo_random i = of_nat (7 * i + 3)"

section \<open>Theorems about the cookie option mapping\<close>

lemma rest_of_fields:
  "name (rest_of ov) = name ov" "val (rest_of ov) = val ov"
  "domain (rest_of ov) = domain ov" "path (rest_of ov) = path ov"
  "maxAge (rest_of ov) = maxAge ov" "httpOnly (rest_of ov) = httpOnly ov"
  "secure (rest_of ov) = secure ov" "sameSite (rest_of ov) = sameSite ov"
  by (simp_all add: rest_of_def CookieOptions.truncate_def)

text \<open>
  Claim C9. For every adapter and every override set, the record returned by
  \<open>getCookieOptions\<close> has \<open>httpOnly = true\<close>, \<open>secure = true\<close>,
  \<open>sameSite = "lax"\<close> and \<open>path = "/"\<close> wherever the overrides do not carry that
  property (and the overriding value where they do), and a supplied \<open>ttlSeconds\<close>
  sets \<open>maxAge\<close> to \<open>ttlSeconds * 1000\<close> for \<open>express\<close> and to \<open>ttlSeconds\<close>
  itself for \<open>next\<close>, \<open>hono\<close> and \<open>standard\<close>.
\<close>

theorem getCookieOptions_defaults_and_ttl:
  "httpOnly (getCookieOptions a (Some ov)) = (case httpOnly ov of None \<Rightarrow> Some True | Some b \<Rightarrow> Some b)
   \<and> secure (getCookieOptions a (Some ov)) = (case secure ov of None \<Rightarrow> Some True | Some b \<Rightarrow> Some b)
   \<and> sameSite (getCookieOptions a (Some ov)) = (case sameSite ov of None \<Rightarrow> Some Lax | Some s \<Rightarrow> Some s)
   \<and> path (getCookieOptions a (Some ov)) = (case path ov of None \<Rightarrow> Some (str ''/'') | Some p \<Rightarrow> Some p)
   \<and> getCookieOptions a None = DEFAULTS
   \<and> httpOnly DEFAULTS = Some True \<and> secure DEFAULTS = Some True
   \<and> sameSite DEFAULTS = Some Lax \<and> path DEFAULTS = Some (str ''/'')
   \<and> (ttlSeconds ov = Some t \<longrightarrow>
        maxAge (getCookieOptions Express (Some ov)) = Some (t * 1000)
      \<and> maxAge (getCookieOptions Next (Some ov)) = Some t
      \<and> maxAge (getCookieOptions Hono (Some ov)) = Some t
      \<and> maxAge (getCookieOptions Standard (Some ov)) = Some t)"
  by (cases "ttlSeconds ov")
     (simp_all add: getCookieOptions_def spread_def spread_prop_def rest_of_fields
        DEFAULTS_def no_overrides_def rest_of_def CookieOptions.truncate_def
        split: option.splits)

theorem getCookieOptions_defaults_and_ttl_witness:
  "ttlSeconds \<lparr> name = Some (str ''ctx''), val = None, domain = Some (str ''.example.com''), path = None,
       maxAge = None, httpOnly = None, secure = None, sameSite = None,
       ttlSeconds = Some 300 \<rparr> = Some 300
   \<and> maxAge (getCookieOptions Express (Some \<lparr> name = Some (str ''ctx''), val = None,
       domain = Some (str ''.example.com''), path = None, maxAge = None, httpOnly = None,
       secure = None, sameSite = None, ttlSeconds = Some 300 \<rparr>)) = Some 300000
   \<and> maxAge (getCookieOptions Next (Some \<lparr> name = Some (str ''ctx''), val = None,
       domain = Some (str ''.example.com''), path = None, maxAge = None, httpOnly = None,
       secure = None, sameSite = None, ttlSeconds = Some 300 \<rparr>)) = Some 300
   \<and> path (getCookieOptions Next (Some \<lparr> name = Some (str ''ctx''), val = None,
       domain = Some (str ''.example.com''), path = None, maxAge = None, httpOnly = None,
       secure = None, sameSite = None, ttlSeconds = Some 300 \<rparr>)) = Some (str ''/'')"
  using getCookieOptions_defaults_and_ttl [of Next "\<lparr> name = Some (str ''ctx''), val = None,
       domain = Some (str ''.example.com''), path = None, maxAge = None, httpOnly = None,
       secure = None, sameSite = None, ttlSeconds = Some 300 \<rparr>" 300]
  by simp

text \<open>
  Claim C10. When the overrides carry both \<open>ttlSeconds\<close> and an explicit
  \<open>maxAge\<close>, the converted \<open>ttlSeconds\<close> is the \<open>maxAge\<close> of the result and the
  explicit one is dropped; a \<open>maxAge\<close> without \<open>ttlSeconds\<close> is passed through as
  it is for every adapter; every other override property is merged over the defaults
  unchanged: the result has the override's value where the overrides carry the property,
  and the default (\<open>path = "/"\<close>, \<open>httpOnly = true\<close>, \<open>secure = true\<close>,
  \<open>sameSite = "lax"\<close>, none for \<open>name\<close>, \<open>value\<close> and \<open>domain\<close>) where they do
  not.
\<close>

theorem getCookieOptions_maxAge_precedence:
  "(ttlSeconds ov = Some t \<longrightarrow>
      maxAge (getCookieOptions a (Some ov)) = Some (if a = Express then t * 1000 else t))
   \<and> (ttlSeconds ov = None \<longrightarrow> maxAge (getCookieOptions a (Some ov)) = maxAge ov)
   \<and> name (getCookieOptions a (Some ov)) = name ov
   \<and> val (getCookieOptions a (Some ov)) = val ov
   \<and> domain (getCookieOptions a (Some ov)) = domain ov
   \<and> path (getCookieOptions a (Some ov))
        = (case path ov of None \<Rightarrow> Some (str ''/'') | Some p \<Rightarrow> Some p)
   \<and> httpOnly (getCookieOptions a (Some ov))
        = (case httpOnly ov of None \<Rightarrow> Some True | Some b \<Rightarrow> Some b)
   \<and> secure (getCookieOptions a (Some ov))
        = (case secure ov of None \<Rightarrow> Some True | Some b \<Rightarrow> Some b)
   \<and> sameSite (getCookieOptions a (Some ov))
        = (case sameSite ov of None \<Rightarrow> Some Lax | Some s \<Rightarrow> Some s)"
  by (cases "ttlSeconds ov"; cases a)
     (simp_all add: getCookieOptions_def spread_def spread_prop_def rest_of_fields
        DEFAULTS_def split: option.splits)

theorem getCookieOptions_maxAge_precedence_witness:
  "ttlSeconds \<lparr> name = Some (str ''ctx''), val = None, domain = None, path = None,
       maxAge = Some 7, httpOnly = None, secure = Some False, sameSite = Some Strict,
       ttlSeconds = Some 60 \<rparr> = Some 60
   \<and> getCookieOptions Express (Some \<lparr> name = Some (str ''ctx''), val = None, domain = None,
       path = None, maxAge = Some 7, httpOnly = None, secure = Some False,
       sameSite = Some Strict, ttlSeconds = Some 60 \<rparr>)
     = \<lparr> name = Some (str ''ctx''), val = None, domain = None, path = Some (str ''/''),
         maxAge = Some 60000, httpOnly = Some True, secure = Some False,
         sameSite = Some Strict \<rparr>
   \<and> ttlSeconds \<lparr> name = None, val = None, domain = None, path = Some (str ''/api''),
       maxAge = Some 7, httpOnly = Some False, secure = None, sameSite = None,
       ttlSeconds = None \<rparr> = None
   \<and> getCookieOptions Express (Some \<lparr> name = None, val = None, domain = None,
       path = Some (str ''/api''), maxAge = Some 7, httpOnly = Some False, secure = None,
       sameSite = None, ttlSeconds = None \<rparr>)
     = \<lparr> name = None, val = None, domain = None, path = Some (str ''/api''),
         maxAge = Some 7, httpOnly = Some False, secure = Some True, sameSite = Some Lax \<rparr>"
  using getCookieOptions_maxAge_precedence [of "\<lparr> name = Some (str ''ctx''), val = None,
       domain = None, path = None, maxAge = Some 7, httpOnly = None, secure = Some False,
       sameSite = Some Strict, ttlSeconds = Some 60 \<rparr>" 60 Express]
    getCookieOptions_maxAge_precedence [of "\<lparr> name = None, val = None, domain = None,
       path = Some (str ''/api''), maxAge = Some 7, httpOnly = Some False, secure = None,
       sameSite = None, ttlSeconds = None \<rparr>" 0 Express]
  by (cases "getCookieOptions Express (Some \<lparr> name = Some (str ''ctx''), val = None,
       domain = None, path = None, maxAge = Some 7, httpOnly = None, secure = Some False,
       sameSite = Some Strict, ttlSeconds = Some 60 \<rparr>)";
      cases "getCookieOptions Express (Some \<lparr> name = None, val = None, domain = None,
       path = Some (str ''/api''), maxAge = Some 7, httpOnly = Some False, secure = None,
       sameSite = None, ttlSeconds = None \<rparr>)") simp

section \<open>Base64: encoding and decoding are inverse\<close>

lemma index_of_nth: "distinct ys \<Longrightarrow> n < length ys \<Longrightarrow> index_of (ys ! n) ys = Some n"
proof (induction ys arbitrary: n)
  case Nil
  then show ?case by simp
next
  case (Cons y ys)
  show ?case
  proof (cases n)
    case 0
    then show ?thesis by simp
  next
    case (Suc m)
    with Cons.prems have "ys ! m \<noteq> y" "m < length ys" "distinct ys" by auto
    with Cons.IH [of m] Suc show ?thesis by simp
  qed
qed

lemma b64_alphabet_length: "length b64_alphabet = 64"
  by (simp add: b64_alphabet_def)

lemma b64_alphabet_distinct: "distinct b64_alphabet"
  by (simp add: b64_alphabet_def)

lemma b64_char_in: "n < 64 \<Longrightarrow> b64_char n \<in> set b64_alphabet"
  by (simp add: b64_char_def b64_alphabet_length)

lemma b64_index_char: "n < 64 \<Longrightarrow> b64_index (b64_char n) = Some n"
  by (simp add: b64_index_def b64_char_def index_of_nth b64_alphabet_distinct
      b64_alphabet_length)

lemma b64_alphabet_plain:
  "\<forall>c \<in> set b64_alphabet. \<not> is_ascii_whitespace c \<and> c \<noteq> of_char CHR ''=''"
  by (simp add: b64_alphabet_def is_ascii_whitespace_def)

lemma b64_to_url:
  "map (\<lambda>c. if c = of_char CHR ''/'' then of_char CHR ''_'' else c)
     (map (\<lambda>c. if c = of_char CHR ''+'' then of_char CHR ''-'' else c) b64_alphabet)
   = b64url_alphabet"
  by (simp add: b64_alphabet_def b64url_alphabet_def)

lemma url_to_b64:
  "map (\<lambda>c. if c = of_char CHR ''_'' then of_char CHR ''/'' else c)
     (map (\<lambda>c. if c = of_char CHR ''-'' then of_char CHR ''+'' else c) b64url_alphabet)
   = b64_alphabet"
  by (simp add: b64_alphabet_def b64url_alphabet_def)

lemma b64url_alphabet_length: "length b64url_alphabet = 64"
  by (simp add: b64url_alphabet_def)

lemma b64url_alphabet_plain:
  "\<forall>c \<in> set b64url_alphabet. c \<noteq> of_char CHR ''='' \<and> c \<noteq> SEPARATOR"
  by (simp add: b64url_alphabet_def SEPARATOR_def)

lemma nat_div_add: "q < k \<Longrightarrow> (p * k + q) div k = (p::nat)"
  by simp

lemma nat_mod_add: "q < k \<Longrightarrow> (p * k + q) mod k = (q::nat)"
  by simp

lemma sextet_bounds:
  "p < 4 \<Longrightarrow> q < 16 \<Longrightarrow> p * 16 + q < (64::nat)"
  "q < 16 \<Longrightarrow> p < 4 \<Longrightarrow> q * 4 + p < (64::nat)"
  "p < 4 \<Longrightarrow> p * 16 < (64::nat)"
  "q < 16 \<Longrightarrow> q * 4 < (64::nat)"
  by linarith+

lemma byte_parts:
  assumes "a < (256::nat)"
  shows "a div 4 < 64" "a div 16 < 16" "a div 64 < 4"
  using assms by (simp_all add: less_mult_imp_div_less)

lemma sextets_bound: "\<forall>c \<in> set bs. c < 256 \<Longrightarrow> \<forall>s \<in> set (sextets bs). s < 64"
proof (induction bs rule: sextets.induct)
  case (1 a b c r)
  then have "a < 256" "b < 256" "c < 256" by simp_all
  with 1 show ?case by (simp add: byte_parts sextet_bounds)
next
  case (2 a b)
  then have "a < 256" "b < 256" by simp_all
  then show ?case by (simp add: byte_parts sextet_bounds)
next
  case (3 a)
  then have "a < 256" by simp
  then show ?case by (simp add: byte_parts sextet_bounds)
next
  case 4
  then show ?case by simp
qed

lemma unsextets_sextets: "\<forall>c \<in> set bs. c < 256 \<Longrightarrow> unsextets (sextets bs) = bs"
proof (induction bs rule: sextets.induct)
  case (1 a b c r)
  then have "a < 256" "b < 256" "c < 256" by simp_all
  with 1 show ?case by (simp add: byte_parts nat_div_add nat_mod_add)
next
  case (2 a b)
  then have "a < 256" "b < 256" by simp_all
  then show ?case by (simp add: byte_parts nat_div_add nat_mod_add)
next
  case (3 a)
  then show ?case by simp
next
  case 4
  then show ?case by simp
qed

lemma length_sextets_mod4: "length (sextets bs) mod 4 \<noteq> 1"
  by (induction bs rule: sextets.induct) (simp_all add: mod_Suc)

lemma those_map_inverse:
  "\<forall>s \<in> set ss. f (g s) = Some s \<Longrightarrow> those (map f (map g ss)) = Some ss"
  by (induction ss) simp_all

lemma unat_byte_bound: "\<forall>c \<in> set (map unat (bytes :: byte list)). c < 256"
proof
  fix c assume "c \<in> set (map unat bytes)"
  then obtain b :: byte where "c = unat b" by auto
  moreover have "unat b < 2 ^ LENGTH(8)" by (rule unsigned_less)
  ultimately show "c < 256" by simp
qed

lemma btoa_bytes:
  "btoa (map unat (bytes :: byte list)) =
     Inr (map b64_char (sextets (map unat bytes))
          @ replicate ((3 - length bytes mod 3) mod 3) (of_char CHR ''=''))"
proof -
  have "\<not> list_ex (\<lambda>c. 255 < c) (map unat bytes)"
    using unat_byte_bound [of bytes] by (auto simp: list_ex_iff)
  then show ?thesis by (simp add: btoa_def)
qed

lemma dropWhile_replicate_append:
  "P e \<Longrightarrow> dropWhile P (replicate k e @ ys) = dropWhile P ys"
  by (induction k) simp_all

lemma dropWhile_none: "\<forall>x \<in> set ys. \<not> P x \<Longrightarrow> dropWhile P ys = ys"
  by (cases ys) simp_all

lemma strip_trailing_eq_padding:
  assumes "of_char CHR ''='' \<notin> set xs"
  shows "strip_trailing_eq (xs @ replicate k (of_char CHR ''='')) = xs"
proof -
  have "\<forall>x \<in> set (rev xs). \<not> x = of_char CHR ''=''"
    using assms by auto
  then have "dropWhile (\<lambda>c. c = of_char CHR ''='') (rev xs) = rev xs"
    by (rule dropWhile_none)
  then show ?thesis
    by (simp add: strip_trailing_eq_def dropWhile_replicate_append)
qed

text \<open>The encoder in closed form: the 6-bit groups of the bytes, written in the
  URL-safe alphabet, with no padding.\<close>

lemma base64UrlEncode_eq:
  "base64UrlEncode bytes = Inr (map (\<lambda>n. b64url_alphabet ! n) (sextets (map unat bytes)))"
proof -
  let ?ss = "sextets (map unat bytes)"
  define F where "F = (\<lambda>c::nat. if c = of_char CHR ''+'' then of_char CHR ''-'' else c)"
  define G where "G = (\<lambda>c::nat. if c = of_char CHR ''/'' then of_char CHR ''_'' else c)"
  have FG: "map G (map F b64_alphabet) = b64url_alphabet"
    unfolding F_def G_def by (rule b64_to_url)
  have bound: "\<forall>s \<in> set ?ss. s < 64"
    by (rule sextets_bound [OF unat_byte_bound])
  have url: "G (F (b64_char n)) = b64url_alphabet ! n" if "n < 64" for n
  proof -
    have "map G (map F b64_alphabet) ! n = G (F (b64_alphabet ! n))"
      using that by (simp add: b64_alphabet_length)
    then show ?thesis by (simp only: FG b64_char_def)
  qed
  have body: "map G (map F (map b64_char ?ss)) = map (\<lambda>n. b64url_alphabet ! n) ?ss"
    using bound url by simp
  have noeq: "of_char CHR ''='' \<notin> set (map (\<lambda>n. b64url_alphabet ! n) ?ss)"
  proof
    assume "of_char CHR ''='' \<in> set (map (\<lambda>n. b64url_alphabet ! n) ?ss)"
    then obtain n where n: "n \<in> set ?ss" and eq: "b64url_alphabet ! n = of_char CHR ''=''"
      by auto
    from n bound have "n < length b64url_alphabet"
      by (simp add: b64url_alphabet_length)
    then have "b64url_alphabet ! n \<in> set b64url_alphabet"
      by (rule nth_mem)
    with b64url_alphabet_plain have "b64url_alphabet ! n \<noteq> of_char CHR ''=''"
      by blast
    with eq show False by blast
  qed
  have pad: "map G (map F (replicate k (of_char CHR ''=''))) = replicate k (of_char CHR ''='')"
    for k unfolding F_def G_def by simp
  have rep: "replaceAll CHR ''/'' CHR ''_'' (replaceAll CHR ''+'' CHR ''-'' xs) = map G (map F xs)"
    for xs by (simp add: replaceAll_def F_def G_def)
  show ?thesis
    unfolding base64UrlEncode_def Let_def btoa_bytes
    by (simp only: sum.case rep map_append body pad strip_trailing_eq_padding [OF noeq])
qed

lemma atob_b64:
  assumes "\<forall>s \<in> set ss. s < 64" and "length ss mod 4 \<noteq> 1"
  shows "atob (map b64_char ss) = Inr (unsextets ss)"
proof -
  let ?d = "map b64_char ss"
  have plain: "\<forall>c \<in> set ?d. \<not> is_ascii_whitespace c \<and> c \<noteq> of_char CHR ''=''"
    using assms(1) b64_alphabet_plain b64_char_in by auto
  then have filt: "filter (\<lambda>c. \<not> is_ascii_whitespace c) ?d = ?d"
    by (simp add: filter_id_conv)
  have strip: "strip_one_eq ?d = ?d"
  proof (cases "?d = []")
    case True
    then show ?thesis by (simp add: strip_one_eq_def)
  next
    case False
    then have "last ?d \<in> set ?d" by (rule last_in_set)
    with plain have "last ?d \<noteq> of_char CHR ''=''" by blast
    then show ?thesis by (simp add: strip_one_eq_def)
  qed
  have idx: "those (map b64_index ?d) = Some ss"
    using assms(1) by (intro those_map_inverse) (simp add: b64_index_char)
  show ?thesis
    unfolding atob_def filt Let_def strip
    using assms(2) idx by simp
qed

lemma base64UrlDecode_encode:
  assumes "base64UrlEncode bytes = Inr s"
  shows "base64UrlDecode s = Inr bytes"
proof -
  let ?ss = "sextets (map unat bytes)"
  define F where "F = (\<lambda>c::nat. if c = of_char CHR ''-'' then of_char CHR ''+'' else c)"
  define G where "G = (\<lambda>c::nat. if c = of_char CHR ''_'' then of_char CHR ''/'' else c)"
  have FG: "map G (map F b64url_alphabet) = b64_alphabet"
    unfolding F_def G_def by (rule url_to_b64)
  have s: "s = map (\<lambda>n. b64url_alphabet ! n) ?ss"
    using assms by (simp add: base64UrlEncode_eq)
  have bound: "\<forall>s \<in> set ?ss. s < 64"
    by (rule sextets_bound [OF unat_byte_bound])
  have inv: "G (F (b64url_alphabet ! n)) = b64_char n" if "n < 64" for n
  proof -
    have "map G (map F b64url_alphabet) ! n = G (F (b64url_alphabet ! n))"
      using that by (simp add: b64url_alphabet_length)
    then show ?thesis by (simp only: FG b64_char_def)
  qed
  have padded: "map G (map F s) = map b64_char ?ss"
    unfolding s using bound inv by simp
  have rep: "replaceAll CHR ''_'' CHR ''/'' (replaceAll CHR ''-'' CHR ''+'' xs) = map G (map F xs)"
    for xs by (simp add: replaceAll_def F_def G_def)
  have "atob (map b64_char ?ss) = Inr (unsextets ?ss)"
    by (rule atob_b64 [OF bound length_sextets_mod4])
  moreover have "unsextets ?ss = map unat bytes"
    by (rule unsextets_sextets [OF unat_byte_bound])
  ultimately show ?thesis
    unfolding base64UrlDecode_def Let_def rep padded
    by (simp add: comp_def)
qed

lemma base64UrlEncode_alphabet:
  assumes "base64UrlEncode bytes = Inr s"
  shows "set s \<subseteq> set b64url_alphabet"
proof -
  have "\<forall>n \<in> set (sextets (map unat bytes)). n < 64"
    by (rule sextets_bound [OF unat_byte_bound])
  then show ?thesis
    using assms by (auto simp: base64UrlEncode_eq b64url_alphabet_length)
qed

lemma base64UrlEncode_no_separator:
  assumes "base64UrlEncode bytes = Inr s"
  shows "SEPARATOR \<notin> set s"
  using base64UrlEncode_alphabet [OF assms] b64url_alphabet_plain by blast

section \<open>Splitting a token\<close>

lemma split_on_no_sep: "sep \<notin> set s \<Longrightarrow> split_on sep s = [s]"
  by (induction s) auto

lemma split_on_two:
  "sep \<notin> set a \<Longrightarrow> sep \<notin> set b \<Longrightarrow> split_on sep (a @ [sep] @ b) = [a, b]"
  by (induction a) (auto simp: split_on_no_sep)

lemma split_on_not_Nil: "split_on sep s \<noteq> []"
  by (induction s) (simp_all split: list.splits)

lemma length_split_on: "length (split_on sep s) = Suc (count_list s sep)"
  by (induction s) (auto split: list.splits simp: split_on_not_Nil)

section \<open>What seal produces and what unseal does with it\<close>

lemma seal_token:
  "\<exists>ivB64 ctB64.
     seal pf random now payload secret ttl = Inr (ivB64 @ [SEPARATOR] @ ctB64)
     \<and> base64UrlEncode (getRandomValues random (replicate IV_LENGTH 0)) = Inr ivB64
     \<and> base64UrlEncode
          (gcm_encrypt pf (deriveKey pf secret) (getRandomValues random (replicate IV_LENGTH 0))
             (text_encode pf (json_stringify pf (JObj (obj_set payload EXP
                (JNum (js_add (Fin now) (js_mul (case ttl of None \<Rightarrow> TTL_DEFAULT | Some t \<Rightarrow> t) (Fin 1000)))))))))
         = Inr ctB64"
  by (simp add: seal_def Let_def base64UrlEncode_eq toArrayBuffer_def)

text \<open>On a token of two decodable components, \<open>unseal\<close> is the decryption followed by
  the checks on the decrypted text.\<close>

lemma unseal_wellformed:
  assumes "tok \<noteq> []" and "secret \<noteq> []"
    and "split_on SEPARATOR tok = [ivB64, ctB64]"
    and "base64UrlDecode ivB64 = Inr iv" and "base64UrlDecode ctB64 = Inr ct"
  shows "unseal pf now (Some tok) secret =
     (case gcm_decrypt pf (deriveKey pf secret) iv ct of
        None \<Rightarrow> Inr None
      | Some plaintext \<Rightarrow>
          (case json_parse pf (text_decode pf plaintext) of
             None \<Rightarrow> Inr None
           | Some data \<Rightarrow>
               (case get_exp data of
                  Inl e \<Rightarrow> Inl e
                | Inr (Some (JNum exp)) \<Rightarrow>
                    if js_less exp (Fin now) then Inr None else Inr (Some (delete_exp data))
                | Inr _ \<Rightarrow> Inr None)))"
  using assms by (simp add: unseal_def toArrayBuffer_def Let_def split: option.split)

lemma unseal_sealed:
  assumes "secret' \<noteq> []"
    and "base64UrlEncode iv = Inr ivB64" and "base64UrlEncode ct = Inr ctB64"
  shows "unseal pf now (Some (ivB64 @ [SEPARATOR] @ ctB64)) secret' =
     (case gcm_decrypt pf (deriveKey pf secret') iv ct of
        None \<Rightarrow> Inr None
      | Some plaintext \<Rightarrow>
          (case json_parse pf (text_decode pf plaintext) of
             None \<Rightarrow> Inr None
           | Some data \<Rightarrow>
               (case get_exp data of
                  Inl e \<Rightarrow> Inl e
                | Inr (Some (JNum exp)) \<Rightarrow>
                    if js_less exp (Fin now) then Inr None else Inr (Some (delete_exp data))
                | Inr _ \<Rightarrow> Inr None)))"
proof (rule unseal_wellformed)
  show "ivB64 @ [SEPARATOR] @ ctB64 \<noteq> []" by simp
  show "secret' \<noteq> []" by (rule assms(1))
  show "split_on SEPARATOR (ivB64 @ [SEPARATOR] @ ctB64) = [ivB64, ctB64]"
    by (rule split_on_two) (rule base64UrlEncode_no_separator, rule assms)+
  show "base64UrlDecode ivB64 = Inr iv" by (rule base64UrlDecode_encode [OF assms(2)])
  show "base64UrlDecode ctB64 = Inr ct" by (rule base64UrlDecode_encode [OF assms(3)])
qed

lemma map_of_obj_set: "map_of (obj_set ps k v) k = Some v"
  by (induction ps) simp_all

lemma filter_obj_set:
  "filter (\<lambda>p. fst p \<noteq> k) (obj_set ps k v) = filter (\<lambda>p. fst p \<noteq> k) ps"
  by (induction ps) simp_all

lemma filter_absent: "k \<notin> fst ` set ps \<Longrightarrow> filter (\<lambda>p. fst p \<noteq> k) ps = ps"
  by (induction ps) auto

lemma obj_set_twice: "obj_set (obj_set ps k v) k w = obj_set ps k w"
  by (induction ps) simp_all

lemma filter_no_key: "k \<notin> fst ` set (filter (\<lambda>p. fst p \<noteq> k) ps)"
  by auto

text \<open>Sealing and then unsealing, on a platform that decrypts what it encrypted and
  parses what it serialized: the result is decided by the expiration alone.\<close>

lemma unseal_seal:
  assumes "secret \<noteq> []"
    and "exp = js_add (Fin now) (js_mul (case ttl of None \<Rightarrow> TTL_DEFAULT | Some t \<Rightarrow> t) (Fin 1000))"
    and "data = JObj (obj_set payload EXP (JNum exp))"
    and "plaintext = text_encode pf (json_stringify pf data)"
    and "iv = getRandomValues random (replicate IV_LENGTH 0)"
    and "gcm_decrypt pf (deriveKey pf secret) iv
           (gcm_encrypt pf (deriveKey pf secret) iv plaintext) = Some plaintext"
    and "json_parse pf (text_decode pf plaintext) = Some data"
  shows "\<exists>token. seal pf random now payload secret ttl = Inr token
     \<and> unseal pf now' (Some token) secret =
         (if js_less exp (Fin now') then Inr None
          else Inr (Some (JObj (filter (\<lambda>p. fst p \<noteq> EXP) payload))))"
proof -
  obtain ivB64 ctB64 where
    tok: "seal pf random now payload secret ttl = Inr (ivB64 @ [SEPARATOR] @ ctB64)"
    and iv: "base64UrlEncode iv = Inr ivB64"
    and ct: "base64UrlEncode (gcm_encrypt pf (deriveKey pf secret) iv plaintext) = Inr ctB64"
    using seal_token [of pf random now payload secret ttl]
    unfolding assms(2-5) by blast
  have "unseal pf now' (Some (ivB64 @ [SEPARATOR] @ ctB64)) secret =
         (if js_less exp (Fin now') then Inr None
          else Inr (Some (JObj (filter (\<lambda>p. fst p \<noteq> EXP) payload))))"
    unfolding unseal_sealed [OF assms(1) iv ct] assms(6) option.case assms(7)
    by (simp add: assms(3) map_of_obj_set filter_obj_set)
  with tok show ?thesis by blast
qed

text \<open>Where no rounding happens, the expiration that \<open>seal\<close> computes is the exact
  sum.\<close>

lemma js_exp_exact:
  assumes "\<bar>t * 1000\<bar> < 2 ^ 53" and "\<bar>now + t * 1000\<bar> < 2 ^ 53"
  shows "js_add (Fin now) (js_mul (Fin t) (Fin 1000)) = Fin (now + t * 1000)"
  using assms by (simp add: double_of_int_def)

section \<open>The small platform\<close>

lemma demo_decrypt_encrypt: "demo_decrypt key iv (demo_encrypt key iv pt) = Some pt"
  by (simp add: demo_decrypt_def demo_encrypt_def demo_tag_def)

lemma utf8_encode_ascii: "list_all (\<lambda>c. c < 128) s \<Longrightarrow> utf8_encode s = map of_nat s"
  by (induction s rule: utf8_encode.induct)
     (simp_all add: utf8_encode.simps utf8_bytes_def is_high_surrogate_def
        is_low_surrogate_def)

lemma demo_fields:
  "text_encode demo_platform = utf8_encode"
  "text_decode demo_platform = map unat"
  "json_stringify demo_platform = demo_stringify"
  "json_parse demo_platform = map_of demo_json"
  "gcm_encrypt demo_platform = demo_encrypt"
  "gcm_decrypt demo_platform = demo_decrypt"
  by (simp_all add: demo_platform_def)

text \<open>The initialization vector and the keys of the examples.\<close>

lemma demo_iv: "getRandomValues demo_random (replicate IV_LENGTH 0)
    = [3, 10, 17, 24, 31, 38, 45, 52, 59, 66, 73, 80]"
  by (simp add: getRandomValues_def IV_LENGTH_def demo_random_def upt_rec numeral_nat)

lemma demo_iv_b64:
  "base64UrlEncode [3, 10, 17, 24, 31, 38, 45, 52, 59, 66, 73, 80] = Inr (str ''AwoRGB8mLTQ7QklQ'')"
  by (simp add: base64UrlEncode_eq b64url_alphabet_def)

lemma demo_token_iv:
  "base64UrlDecode (str ''AwoRGB8mLTQ7QklQ'') = Inr [3, 10, 17, 24, 31, 38, 45, 52, 59, 66, 73, 80]"
  by (simp add: base64UrlDecode_def atob_def b64_index_def b64_alphabet_def replaceAll_def
      is_ascii_whitespace_def strip_one_eq_def)

lemma demo_key: "deriveKey demo_platform (str ''k'') = 107 # replicate 31 0"
  by (simp add: deriveKey_def demo_platform_def utf8_encode_ascii)

lemma demo_key_j: "deriveKey demo_platform (str ''j'') = 106 # replicate 31 0"
  by (simp add: deriveKey_def demo_platform_def utf8_encode_ascii)

lemma demo_key_surrogate:
  "deriveKey demo_platform [55296] = [239, 191, 189] @ replicate 29 0"
  "deriveKey demo_platform [65533] = [239, 191, 189] @ replicate 29 0"
  by (simp_all add: deriveKey_def demo_platform_def utf8_encode.simps utf8_bytes_def
      is_high_surrogate_def is_low_surrogate_def)

lemma demo_tag_k:
  "demo_tag (107 # replicate 31 0) [3, 10, 17, 24, 31, 38, 45, 52, 59, 66, 73, 80]
      = [3, 10, 17, 24, 31, 38, 45, 52, 59, 66, 73, 80, 107, 0, 0, 0]"
  by (simp add: demo_tag_def eval_nat_numeral)

lemma demo_tag_j:
  "demo_tag (106 # replicate 31 0) [3, 10, 17, 24, 31, 38, 45, 52, 59, 66, 73, 80]
      = [3, 10, 17, 24, 31, 38, 45, 52, 59, 66, 73, 80, 106, 0, 0, 0]"
  by (simp add: demo_tag_def eval_nat_numeral)

lemma demo_tag_surrogate:
  "demo_tag ([239, 191, 189] @ replicate 29 0) [3, 10, 17, 24, 31, 38, 45, 52, 59, 66, 73, 80]
      = [3, 10, 17, 24, 31, 38, 45, 52, 59, 66, 73, 80, 239, 191, 189, 0]"
  by (simp add: demo_tag_def eval_nat_numeral)

lemma demo_token_decrypt:
  "gcm_decrypt demo_platform (deriveKey demo_platform (str ''k''))
     [3, 10, 17, 24, 31, 38, 45, 52, 59, 66, 73, 80]
     (pt @ [3, 10, 17, 24, 31, 38, 45, 52, 59, 66, 73, 80, 107, 0, 0, 0]) = Some pt"
  using demo_decrypt_encrypt [of "107 # replicate 31 0"
      "[3, 10, 17, 24, 31, 38, 45, 52, 59, 66, 73, 80]" pt]
  unfolding demo_fields demo_key demo_encrypt_def demo_tag_k .

lemma demo_token_decrypt_j:
  "gcm_decrypt demo_platform (deriveKey demo_platform (str ''j''))
     [3, 10, 17, 24, 31, 38, 45, 52, 59, 66, 73, 80]
     (pt @ [3, 10, 17, 24, 31, 38, 45, 52, 59, 66, 73, 80, 107, 0, 0, 0]) = None"
  unfolding demo_fields demo_key_j demo_decrypt_def demo_tag_j by simp

lemma demo_token_decrypt_surrogate:
  "gcm_decrypt demo_platform (deriveKey demo_platform [65533])
     [3, 10, 17, 24, 31, 38, 45, 52, 59, 66, 73, 80]
     (pt @ [3, 10, 17, 24, 31, 38, 45, 52, 59, 66, 73, 80, 239, 191, 189, 0]) = Some pt"
  using demo_decrypt_encrypt [of "[239, 191, 189] @ replicate 29 0"
      "[3, 10, 17, 24, 31, 38, 45, 52, 59, 66, 73, 80]" pt]
  unfolding demo_fields demo_key_surrogate demo_encrypt_def demo_tag_surrogate .

text \<open>The token of the payload \<open>{x: 1}\<close>, sealed at time 0 with \<open>ttlSeconds = 1\<close>
  under the secret \<open>k\<close>: the expiration is 1000.\<close>

lemma demo_envelope_x:
  "json_stringify demo_platform (JObj (obj_set [(str ''x'', JNum (Fin 1))] EXP (JNum (Fin 1000))))
     = str ''{\"x\":1,\"_exp\":1000}''"
  "json_parse demo_platform (text_decode demo_platform (text_encode demo_platform
     (str ''{\"x\":1,\"_exp\":1000}'')))
     = Some (JObj (obj_set [(str ''x'', JNum (Fin 1))] EXP (JNum (Fin 1000))))"
  by (simp_all add: demo_fields demo_stringify_def demo_json_def EXP_def comp_def
      utf8_encode_ascii)

lemma demo_token_split:
  "split_on SEPARATOR (str ''AwoRGB8mLTQ7QklQ.eyJ4IjoxLCJfZXhwIjoxMDAwfQMKERgfJi00O0JJUGsAAAA'')
     = [str ''AwoRGB8mLTQ7QklQ'', str ''eyJ4IjoxLCJfZXhwIjoxMDAwfQMKERgfJi00O0JJUGsAAAA'']"
  by (simp add: SEPARATOR_def)

lemma demo_token_ct:
  "base64UrlDecode (str ''eyJ4IjoxLCJfZXhwIjoxMDAwfQMKERgfJi00O0JJUGsAAAA'')
     = Inr (text_encode demo_platform (str ''{\"x\":1,\"_exp\":1000}'')
            @ [3, 10, 17, 24, 31, 38, 45, 52, 59, 66, 73, 80, 107, 0, 0, 0])"
  by (simp add: base64UrlDecode_def atob_def b64_index_def b64_alphabet_def replaceAll_def
      is_ascii_whitespace_def strip_one_eq_def demo_fields utf8_encode_ascii)

lemma demo_ct_b64:
  "base64UrlEncode (text_encode demo_platform (str ''{\"x\":1,\"_exp\":1000}'')
            @ [3, 10, 17, 24, 31, 38, 45, 52, 59, 66, 73, 80, 107, 0, 0, 0])
     = Inr (str ''eyJ4IjoxLCJfZXhwIjoxMDAwfQMKERgfJi00O0JJUGsAAAA'')"
  by (simp add: base64UrlEncode_eq b64url_alphabet_def demo_fields utf8_encode_ascii)

lemma demo_token_parse:
  "json_parse demo_platform (text_decode demo_platform (text_encode demo_platform
     (str ''{\"x\":1,\"_exp\":1000}'')))
     = Some (JObj [(str ''x'', JNum (Fin 1)), (EXP, JNum (Fin 1000))])"
  by (simp add: demo_fields demo_json_def comp_def utf8_encode_ascii)

lemma demo_seal_x:
  "seal demo_platform demo_random 0 [(str ''x'', JNum (Fin 1))] (str ''k'') (Some (Fin 1))
     = Inr (str ''AwoRGB8mLTQ7QklQ.eyJ4IjoxLCJfZXhwIjoxMDAwfQMKERgfJi00O0JJUGsAAAA'')"
proof -
  have e: "json_stringify demo_platform
      (JObj (obj_set [(str ''x'', JNum (Fin 1))] EXP
         (JNum (js_add (Fin 0)
            (js_mul (case Some (Fin 1) of None \<Rightarrow> TTL_DEFAULT | Some t \<Rightarrow> t) (Fin 1000))))))
     = str ''{\"x\":1,\"_exp\":1000}''"
    using demo_envelope_x(1) by (simp add: double_of_int_def)
  show ?thesis
    unfolding seal_def Let_def demo_iv demo_key e toArrayBuffer_def
      demo_fields(5) demo_encrypt_def demo_tag_k demo_iv_b64 demo_ct_b64 sum.case
    by (simp add: SEPARATOR_def)
qed

text \<open>The same payload sealed under the secret that is one unpaired surrogate.\<close>

lemma demo_surrogate_split:
  "split_on SEPARATOR (str ''AwoRGB8mLTQ7QklQ.eyJ4IjoxLCJfZXhwIjoxMDAwfQMKERgfJi00O0JJUO-_vQA'')
     = [str ''AwoRGB8mLTQ7QklQ'', str ''eyJ4IjoxLCJfZXhwIjoxMDAwfQMKERgfJi00O0JJUO-_vQA'']"
  by (simp add: SEPARATOR_def)

lemma demo_surrogate_ct:
  "base64UrlDecode (str ''eyJ4IjoxLCJfZXhwIjoxMDAwfQMKERgfJi00O0JJUO-_vQA'')
     = Inr (text_encode demo_platform (str ''{\"x\":1,\"_exp\":1000}'')
            @ [3, 10, 17, 24, 31, 38, 45, 52, 59, 66, 73, 80, 239, 191, 189, 0])"
  by (simp add: base64UrlDecode_def atob_def b64_index_def b64_alphabet_def replaceAll_def
      is_ascii_whitespace_def strip_one_eq_def demo_fields utf8_encode_ascii)

lemma demo_surrogate_ct_b64:
  "base64UrlEncode (text_encode demo_platform (str ''{\"x\":1,\"_exp\":1000}'')
            @ [3, 10, 17, 24, 31, 38, 45, 52, 59, 66, 73, 80, 239, 191, 189, 0])
     = Inr (str ''eyJ4IjoxLCJfZXhwIjoxMDAwfQMKERgfJi00O0JJUO-_vQA'')"
  by (simp add: base64UrlEncode_eq b64url_alphabet_def demo_fields utf8_encode_ascii)

lemma demo_seal_surrogate:
  "seal demo_platform demo_random 0 [(str ''x'', JNum (Fin 1))] [55296] (Some (Fin 1))
     = Inr (str ''AwoRGB8mLTQ7QklQ.eyJ4IjoxLCJfZXhwIjoxMDAwfQMKERgfJi00O0JJUO-_vQA'')"
proof -
  have e: "json_stringify demo_platform
      (JObj (obj_set [(str ''x'', JNum (Fin 1))] EXP
         (JNum (js_add (Fin 0)
            (js_mul (case Some (Fin 1) of None \<Rightarrow> TTL_DEFAULT | Some t \<Rightarrow> t) (Fin 1000))))))
     = str ''{\"x\":1,\"_exp\":1000}''"
    using demo_envelope_x(1) by (simp add: double_of_int_def)
  show ?thesis
    unfolding seal_def Let_def demo_iv demo_key_surrogate e toArrayBuffer_def
      demo_fields(5) demo_encrypt_def demo_tag_surrogate demo_iv_b64 demo_surrogate_ct_b64
      sum.case
    by (simp add: SEPARATOR_def)
qed

text \<open>The same payload sealed under \<open>k\<close> with \<open>ttlSeconds = 2 ^ 1020\<close>: the product
  with 1000 is beyond the largest double, the expiration is infinite and is written as
  \<open>null\<close>.\<close>

lemma demo_exp_overflow: "js_add (Fin 0) (js_mul (Fin (2 ^ 1020)) (Fin 1000)) = PosInf"
  by (simp add: double_of_int_def)

lemma demo_overflow_split:
  "split_on SEPARATOR (str ''AwoRGB8mLTQ7QklQ.eyJ4IjoxLCJfZXhwIjpudWxsfQMKERgfJi00O0JJUGsAAAA'')
     = [str ''AwoRGB8mLTQ7QklQ'', str ''eyJ4IjoxLCJfZXhwIjpudWxsfQMKERgfJi00O0JJUGsAAAA'']"
  by (simp add: SEPARATOR_def)

lemma demo_overflow_ct:
  "base64UrlDecode (str ''eyJ4IjoxLCJfZXhwIjpudWxsfQMKERgfJi00O0JJUGsAAAA'')
     = Inr (text_encode demo_platform (str ''{\"x\":1,\"_exp\":null}'')
            @ [3, 10, 17, 24, 31, 38, 45, 52, 59, 66, 73, 80, 107, 0, 0, 0])"
  by (simp add: base64UrlDecode_def atob_def b64_index_def b64_alphabet_def replaceAll_def
      is_ascii_whitespace_def strip_one_eq_def demo_fields utf8_encode_ascii)

lemma demo_overflow_ct_b64:
  "base64UrlEncode (text_encode demo_platform (str ''{\"x\":1,\"_exp\":null}'')
            @ [3, 10, 17, 24, 31, 38, 45, 52, 59, 66, 73, 80, 107, 0, 0, 0])
     = Inr (str ''eyJ4IjoxLCJfZXhwIjpudWxsfQMKERgfJi00O0JJUGsAAAA'')"
  by (simp add: base64UrlEncode_eq b64url_alphabet_def demo_fields utf8_encode_ascii)

lemma demo_overflow_parse:
  "json_parse demo_platform (text_decode demo_platform (text_encode demo_platform
     (str ''{\"x\":1,\"_exp\":null}'')))
     = Some (JObj [(str ''x'', JNum (Fin 1)), (EXP, JNull)])"
  by (simp add: demo_fields demo_json_def comp_def utf8_encode_ascii)

lemma demo_seal_overflow:
  "seal demo_platform demo_random 0 [(str ''x'', JNum (Fin 1))] (str ''k'') (Some (Fin (2 ^ 1020)))
     = Inr (str ''AwoRGB8mLTQ7QklQ.eyJ4IjoxLCJfZXhwIjpudWxsfQMKERgfJi00O0JJUGsAAAA'')"
proof -
  have e: "json_stringify demo_platform
      (JObj (obj_set [(str ''x'', JNum (Fin 1))] EXP
         (JNum (js_add (Fin 0)
            (js_mul (case Some (Fin (2 ^ 1020)) of None \<Rightarrow> TTL_DEFAULT | Some t \<Rightarrow> t)
               (Fin 1000))))))
     = str ''{\"x\":1,\"_exp\":null}''"
    unfolding option.case demo_exp_overflow
    by (simp add: demo_fields demo_stringify_def demo_json_def EXP_def)
  show ?thesis
    unfolding seal_def Let_def demo_iv demo_key e toArrayBuffer_def
      demo_fields(5) demo_encrypt_def demo_tag_k demo_iv_b64 demo_overflow_ct_b64 sum.case
    by (simp add: SEPARATOR_def)
qed

text \<open>The token whose decrypted text is \<open>null\<close>.\<close>

lemma demo_null_split:
  "split_on SEPARATOR (str ''AwoRGB8mLTQ7QklQ.bnVsbAMKERgfJi00O0JJUGsAAAA'')
     = [str ''AwoRGB8mLTQ7QklQ'', str ''bnVsbAMKERgfJi00O0JJUGsAAAA'']"
  by (simp add: SEPARATOR_def)

lemma demo_null_ct:
  "base64UrlDecode (str ''bnVsbAMKERgfJi00O0JJUGsAAAA'')
     = Inr (text_encode demo_platform (str ''null'')
            @ [3, 10, 17, 24, 31, 38, 45, 52, 59, 66, 73, 80, 107, 0, 0, 0])"
  by (simp add: base64UrlDecode_def atob_def b64_index_def b64_alphabet_def replaceAll_def
      is_ascii_whitespace_def strip_one_eq_def demo_fields utf8_encode_ascii)

lemma demo_null_parse:
  "json_parse demo_platform (text_decode demo_platform (text_encode demo_platform (str ''null'')))
     = Some JNull"
  by (simp add: demo_fields demo_json_def comp_def utf8_encode_ascii)

text \<open>\<open>unseal\<close> on a token that decodes, decrypts and parses: what is left is the
  check of the expiration.\<close>

lemma unseal_decrypted:
  assumes "tok \<noteq> []" and "secret \<noteq> []"
    and "split_on SEPARATOR tok = [ivB64, ctB64]"
    and "base64UrlDecode ivB64 = Inr iv" and "base64UrlDecode ctB64 = Inr ct"
    and "gcm_decrypt pf (deriveKey pf secret) iv ct = Some plaintext"
    and "json_parse pf (text_decode pf plaintext) = Some data"
  shows "unseal pf now (Some tok) secret =
     (case get_exp data of
        Inl e \<Rightarrow> Inl e
      | Inr (Some (JNum exp)) \<Rightarrow>
          if js_less exp (Fin now) then Inr None else Inr (Some (delete_exp data))
      | Inr _ \<Rightarrow> Inr None)"
  unfolding unseal_wellformed [OF assms(1-5)] assms(6) option.case assms(7) ..

section \<open>Round trip\<close>

text \<open>
  Claim C1, as the code has it. For every payload without a property \<open>_exp\<close>, every
  non-empty secret and every \<open>ttlSeconds\<close> for which the expiration that \<open>seal\<close>
  computes, \<open>Date.now() + ttlSeconds * 1000\<close> in the arithmetic of doubles, is finite:
  \<open>seal\<close> returns a token, and \<open>unseal\<close> of that token with the same secret, at any
  time up to that expiration, returns the payload itself, in which \<open>_exp\<close> does not
  occur. The platform is any one whose \<open>decrypt\<close> recovers what its \<open>encrypt\<close>
  produced for this key and initialization vector, and whose \<open>JSON.parse\<close> reads back
  what its \<open>JSON.stringify\<close> wrote for this envelope (the payload is
  JSON-serializable). Where no rounding happens the expiration is
  \<open>now + ttlSeconds * 1000\<close> exactly (\<open>js_exp_exact\<close>), and with \<open>ttlSeconds > 0\<close>
  the times between sealing and expiration are such times.
\<close>

theorem seal_unseal_roundtrip:
  assumes "secret \<noteq> []"
    and "EXP \<notin> fst ` set payload"
    and "js_add (Fin now) (js_mul ttl (Fin 1000)) = Fin exp"
    and "now' \<le> exp"
    and "data = JObj (obj_set payload EXP (JNum (Fin exp)))"
    and "plaintext = text_encode pf (json_stringify pf data)"
    and "iv = getRandomValues random (replicate IV_LENGTH 0)"
    and "gcm_decrypt pf (deriveKey pf secret) iv
           (gcm_encrypt pf (deriveKey pf secret) iv plaintext) = Some plaintext"
    and "json_parse pf (text_decode pf plaintext) = Some data"
  shows "\<exists>token result.
           seal pf random now payload secret (Some ttl) = Inr token
         \<and> unseal pf now' (Some token) secret = Inr (Some (JObj result))
         \<and> result = payload \<and> map_of result EXP = None"
proof -
  have "\<exists>token. seal pf random now payload secret (Some ttl) = Inr token
     \<and> unseal pf now' (Some token) secret =
         (if js_less (Fin exp) (Fin now') then Inr None
          else Inr (Some (JObj (filter (\<lambda>p. fst p \<noteq> EXP) payload))))"
    by (rule unseal_seal [OF assms(1) _ assms(5-9)]) (simp add: assms(3))
  moreover have "filter (\<lambda>p. fst p \<noteq> EXP) payload = payload"
    by (rule filter_absent [OF assms(2)])
  moreover have "map_of payload EXP = None"
    using assms(2) by (simp add: map_of_eq_None_iff)
  ultimately show ?thesis using assms(4) by auto
qed

theorem seal_unseal_roundtrip_witness:
  "str ''k'' \<noteq> [] \<and> EXP \<notin> fst ` set [(str ''x'', JNum (Fin 1))]
   \<and> js_add (Fin 0) (js_mul (Fin 1) (Fin 1000)) = Fin 1000 \<and> (500::int) \<le> 1000
   \<and> (\<exists>token result.
         seal demo_platform demo_random 0 [(str ''x'', JNum (Fin 1))] (str ''k'') (Some (Fin 1))
           = Inr token
       \<and> unseal demo_platform 500 (Some token) (str ''k'') = Inr (Some (JObj result))
       \<and> result = [(str ''x'', JNum (Fin 1))] \<and> map_of result EXP = None)"
proof -
  have h1: "str ''k'' \<noteq> []" by simp
  have h2: "EXP \<notin> fst ` set [(str ''x'', JNum (Fin 1))]" by (simp add: EXP_def)
  have h3: "js_add (Fin 0) (js_mul (Fin 1) (Fin 1000)) = Fin 1000"
    by (simp add: double_of_int_def)
  have h4: "(500::int) \<le> 1000" by simp
  have h8: "gcm_decrypt demo_platform key iv (gcm_encrypt demo_platform key iv pt) = Some pt"
    for key iv pt by (simp add: demo_fields demo_decrypt_encrypt)
  have h9: "json_parse demo_platform (text_decode demo_platform (text_encode demo_platform
      (json_stringify demo_platform
         (JObj (obj_set [(str ''x'', JNum (Fin 1))] EXP (JNum (Fin 1000)))))))
      = Some (JObj (obj_set [(str ''x'', JNum (Fin 1))] EXP (JNum (Fin 1000))))"
    unfolding demo_envelope_x(1) by (rule demo_envelope_x(2))
  show ?thesis
    using h1 h2 h3 h4
      seal_unseal_roundtrip [OF h1 h2 h3 h4 refl refl refl h8 h9, of demo_random]
    by blast
qed

text \<open>Claim C1 as stated fails for a \<open>ttlSeconds\<close> whose product with 1000 is beyond
  the largest double: with \<open>ttlSeconds = 2 ^ 1020\<close> the expiration is infinite,
  \<^verbatim>\<open>JSON.stringify\<close> writes it as \<open>null\<close>, and \<open>unseal\<close> with the same secret, at
  the time of sealing, returns \<open>null\<close>.\<close>

theorem seal_unseal_overflow_counterexample:
  "(0::int) < 2 ^ 1020
   \<and> js_add (Fin 0) (js_mul (Fin (2 ^ 1020)) (Fin 1000)) = PosInf
   \<and> seal demo_platform demo_random 0 [(str ''x'', JNum (Fin 1))] (str ''k'')
        (Some (Fin (2 ^ 1020)))
       = Inr (str ''AwoRGB8mLTQ7QklQ.eyJ4IjoxLCJfZXhwIjpudWxsfQMKERgfJi00O0JJUGsAAAA'')
   \<and> unseal demo_platform 0
        (Some (str ''AwoRGB8mLTQ7QklQ.eyJ4IjoxLCJfZXhwIjpudWxsfQMKERgfJi00O0JJUGsAAAA''))
        (str ''k'')
       = Inr None"
proof -
  have "unseal demo_platform 0
        (Some (str ''AwoRGB8mLTQ7QklQ.eyJ4IjoxLCJfZXhwIjpudWxsfQMKERgfJi00O0JJUGsAAAA''))
        (str ''k'')
       = Inr None"
    using unseal_decrypted [OF _ _ demo_overflow_split demo_token_iv demo_overflow_ct
        demo_token_decrypt demo_overflow_parse, of 0]
    by (simp add: EXP_def)
  with demo_exp_overflow demo_seal_overflow show ?thesis by simp
qed

section \<open>Failures of unseal\<close>

text \<open>
  Claim C6. \<open>unseal\<close> returns \<open>null\<close> for an absent token, for the empty token, for
  an empty secret whatever the token is, and for every token that splitting on \<open>.\<close>
  does not cut into exactly two components.
\<close>

theorem unseal_malformed_rejected:
  "unseal pf now None secret = Inr None
   \<and> unseal pf now (Some []) secret = Inr None
   \<and> unseal pf now token [] = Inr None
   \<and> (length (split_on SEPARATOR tok) \<noteq> 2 \<longrightarrow> unseal pf now (Some tok) secret = Inr None)"
proof -
  have "unseal pf now (Some tok) secret = Inr None" if "length (split_on SEPARATOR tok) \<noteq> 2"
  proof (cases "split_on SEPARATOR tok")
    case Nil
    then show ?thesis by (simp add: unseal_def)
  next
    case (Cons a as)
    with that show ?thesis
      by (cases as; cases "tl as") (simp_all add: unseal_def)
  qed
  moreover have "unseal pf now token [] = Inr None"
    by (cases token) (simp_all add: unseal_def)
  ultimately show ?thesis by (simp add: unseal_def)
qed

theorem unseal_malformed_rejected_witness:
  "length (split_on SEPARATOR (str ''a.b.c'')) \<noteq> 2
   \<and> unseal demo_platform 0 (Some (str ''a.b.c'')) (str ''k'') = Inr None
   \<and> length (split_on SEPARATOR (str ''not-dot-separated'')) \<noteq> 2
   \<and> unseal demo_platform 0 (Some (str ''not-dot-separated'')) (str ''k'') = Inr None
   \<and> unseal demo_platform 0
        (Some (str ''AwoRGB8mLTQ7QklQ.eyJ4IjoxLCJfZXhwIjoxMDAwfQMKERgfJi00O0JJUGsAAAA'')) []
       = Inr None"
proof -
  have a: "length (split_on SEPARATOR (str ''a.b.c'')) \<noteq> 2"
    by (simp add: SEPARATOR_def)
  have b: "length (split_on SEPARATOR (str ''not-dot-separated'')) \<noteq> 2"
    by (simp add: SEPARATOR_def)
  show ?thesis
    using a b
      unseal_malformed_rejected [of demo_platform 0 "str ''k''" None "str ''a.b.c''"]
      unseal_malformed_rejected [of demo_platform 0 "str ''k''" None "str ''not-dot-separated''"]
      unseal_malformed_rejected [of demo_platform 0 "[]"
        "Some (str ''AwoRGB8mLTQ7QklQ.eyJ4IjoxLCJfZXhwIjoxMDAwfQMKERgfJi00O0JJUGsAAAA'')" "[]"]
    by blast
qed

text \<open>
  Claim C3, as the code has it. On a token whose decrypted text parses to an object,
  \<open>unseal\<close> returns \<open>null\<close> when the object has no \<open>_exp\<close>, when its \<open>_exp\<close>
  is not a number, and when its \<open>_exp\<close> is less than the current time. An \<open>_exp\<close>
  equal to the current time is not expired: the token is accepted and the object
  without \<open>_exp\<close> is returned.
\<close>

theorem unseal_expiration_check:
  assumes "tok \<noteq> []" and "secret \<noteq> []"
    and "split_on SEPARATOR tok = [ivB64, ctB64]"
    and "base64UrlDecode ivB64 = Inr iv" and "base64UrlDecode ctB64 = Inr ct"
    and "gcm_decrypt pf (deriveKey pf secret) iv ct = Some plaintext"
    and "json_parse pf (text_decode pf plaintext) = Some (JObj ps)"
  shows "(map_of ps EXP = None \<longrightarrow> unseal pf now (Some tok) secret = Inr None)
    \<and> (\<forall>v. map_of ps EXP = Some v \<longrightarrow> (\<forall>n. v \<noteq> JNum n) \<longrightarrow>
          unseal pf now (Some tok) secret = Inr None)
    \<and> (\<forall>exp. map_of ps EXP = Some (JNum (Fin exp)) \<longrightarrow> exp < now \<longrightarrow>
          unseal pf now (Some tok) secret = Inr None)
    \<and> (\<forall>x. map_of ps EXP = Some (JNum x) \<longrightarrow> js_less x (Fin now) \<longrightarrow>
          unseal pf now (Some tok) secret = Inr None)
    \<and> (map_of ps EXP = Some (JNum (Fin now)) \<longrightarrow>
          unseal pf now (Some tok) secret
            = Inr (Some (JObj (filter (\<lambda>p. fst p \<noteq> EXP) ps))))"
proof -
  have u: "unseal pf now (Some tok) secret =
      (case map_of ps EXP of
         Some (JNum exp) \<Rightarrow>
           if js_less exp (Fin now) then Inr None
           else Inr (Some (JObj (filter (\<lambda>p. fst p \<noteq> EXP) ps)))
       | _ \<Rightarrow> Inr None)"
    unfolding unseal_decrypted [OF assms]
    by (simp split: option.split json.split)
  show ?thesis
    unfolding u by (auto split: json.splits)
qed

theorem unseal_expiration_check_witness:
  "map_of [(str ''x'', JNum (Fin 1)), (EXP, JNum (Fin 1000))] EXP = Some (JNum (Fin 1000))
   \<and> unseal demo_platform 1000
        (Some (str ''AwoRGB8mLTQ7QklQ.eyJ4IjoxLCJfZXhwIjoxMDAwfQMKERgfJi00O0JJUGsAAAA''))
        (str ''k'')
       = Inr (Some (JObj [(str ''x'', JNum (Fin 1))]))"
proof -
  have m: "map_of [(str ''x'', JNum (Fin 1)), (EXP, JNum (Fin 1000))] EXP = Some (JNum (Fin 1000))"
    by (simp add: EXP_def)
  have f: "filter (\<lambda>p. fst p \<noteq> EXP) [(str ''x'', JNum (Fin 1)), (EXP, JNum (Fin 1000))]
      = [(str ''x'', JNum (Fin 1))]"
    by (simp add: EXP_def)
  show ?thesis
    using m f unseal_expiration_check [OF _ _ demo_token_split demo_token_iv demo_token_ct
        demo_token_decrypt demo_token_parse, of 1000]
    by simp
qed

text \<open>Claim C3 as stated fails: a token sealed at time 0 with \<open>ttlSeconds = 1\<close>
  carries the expiration 1000, and \<open>unseal\<close> at the time 1000 returns the payload.\<close>

theorem unseal_boundary_counterexample:
  "seal demo_platform demo_random 0 [(str ''x'', JNum (Fin 1))] (str ''k'') (Some (Fin 1))
     = Inr (str ''AwoRGB8mLTQ7QklQ.eyJ4IjoxLCJfZXhwIjoxMDAwfQMKERgfJi00O0JJUGsAAAA'')
   \<and> unseal demo_platform 1000
        (Some (str ''AwoRGB8mLTQ7QklQ.eyJ4IjoxLCJfZXhwIjoxMDAwfQMKERgfJi00O0JJUGsAAAA''))
        (str ''k'')
       = Inr (Some (JObj [(str ''x'', JNum (Fin 1))]))
   \<and> unseal demo_platform 1000
        (Some (str ''AwoRGB8mLTQ7QklQ.eyJ4IjoxLCJfZXhwIjoxMDAwfQMKERgfJi00O0JJUGsAAAA''))
        (str ''k'')
       \<noteq> Inr None"
proof -
  have "unseal demo_platform 1000
        (Some (str ''AwoRGB8mLTQ7QklQ.eyJ4IjoxLCJfZXhwIjoxMDAwfQMKERgfJi00O0JJUGsAAAA''))
        (str ''k'')
       = Inr (Some (JObj [(str ''x'', JNum (Fin 1))]))"
    using unseal_decrypted [OF _ _ demo_token_split demo_token_iv demo_token_ct
        demo_token_decrypt demo_token_parse, of 1000]
    by (simp add: EXP_def)
  with demo_seal_x show ?thesis by simp
qed

text \<open>
  Claim C4. When decryption succeeds and the decrypted text is the JSON text
  \<open>null\<close>, \<open>unseal\<close> does not return \<open>null\<close>: reading \<open>_exp\<close> of the parsed
  value throws a TypeError, which leaves the function.
\<close>

theorem unseal_null_envelope_raises:
  assumes "tok \<noteq> []" and "secret \<noteq> []"
    and "split_on SEPARATOR tok = [ivB64, ctB64]"
    and "base64UrlDecode ivB64 = Inr iv" and "base64UrlDecode ctB64 = Inr ct"
    and "gcm_decrypt pf (deriveKey pf secret) iv ct = Some plaintext"
    and "json_parse pf (text_decode pf plaintext) = Some JNull"
  shows "unseal pf now (Some tok) secret = Inl TypeError"
  unfolding unseal_wellformed [OF assms(1-5)] assms(6) option.case assms(7)
  by simp

theorem unseal_null_envelope_raises_witness:
  "json_parse demo_platform (text_decode demo_platform (text_encode demo_platform (str ''null'')))
     = Some JNull
   \<and> unseal demo_platform 0 (Some (str ''AwoRGB8mLTQ7QklQ.bnVsbAMKERgfJi00O0JJUGsAAAA''))
        (str ''k'') = Inl TypeError"
proof -
  have h1: "str ''AwoRGB8mLTQ7QklQ.bnVsbAMKERgfJi00O0JJUGsAAAA'' \<noteq> []" by simp
  have h2: "str ''k'' \<noteq> []" by simp
  show ?thesis
    using demo_null_parse
      unseal_null_envelope_raises [OF h1 h2 demo_null_split demo_token_iv demo_null_ct
        demo_token_decrypt demo_null_parse, of 0]
    by blast
qed

text \<open>The other values that are not objects, and text that does not parse, give
  \<open>null\<close>.\<close>

lemma unseal_not_object_rejected:
  assumes "tok \<noteq> []" and "secret \<noteq> []"
    and "split_on SEPARATOR tok = [ivB64, ctB64]"
    and "base64UrlDecode ivB64 = Inr iv" and "base64UrlDecode ctB64 = Inr ct"
    and "gcm_decrypt pf (deriveKey pf secret) iv ct = Some plaintext"
    and "json_parse pf (text_decode pf plaintext) = None
         \<or> json_parse pf (text_decode pf plaintext) = Some (JBool b)
         \<or> json_parse pf (text_decode pf plaintext) = Some (JNum n)
         \<or> json_parse pf (text_decode pf plaintext) = Some (JStr s)
         \<or> json_parse pf (text_decode pf plaintext) = Some (JArr vs)"
  shows "unseal pf now (Some tok) secret = Inr None"
  unfolding unseal_wellformed [OF assms(1-5)] assms(6) option.case
  using assms(7) by auto

text \<open>
  Claim C2. \<open>unseal\<close> is not free of exceptions: on the token below, whose decrypted
  text is \<open>null\<close>, the TypeError of the property read leaves the function.
\<close>

theorem unseal_raises_TypeError:
  "unseal demo_platform 5 (Some (str ''AwoRGB8mLTQ7QklQ.bnVsbAMKERgfJi00O0JJUGsAAAA''))
     (str ''k'') = Inl TypeError
   \<and> unseal demo_platform 5 (Some (str ''AwoRGB8mLTQ7QklQ.bnVsbAMKERgfJi00O0JJUGsAAAA''))
     (str ''k'') \<noteq> Inr None"
  using unseal_decrypted [OF _ _ demo_null_split demo_token_iv demo_null_ct
      demo_token_decrypt demo_null_parse, of 5]
  by simp

text \<open>That is the only exception: whenever \<open>unseal\<close> throws, the token had two
  decodable components, decryption succeeded and the decrypted text parsed to
  \<open>null\<close>. Every other input gives \<open>null\<close> or a value.\<close>

lemma unseal_raises_only_on_null:
  assumes "unseal pf now token secret = Inl e"
  shows "e = TypeError \<and>
    (\<exists>tok ivB64 ctB64 iv ct plaintext.
        token = Some tok \<and> tok \<noteq> [] \<and> secret \<noteq> []
      \<and> split_on SEPARATOR tok = [ivB64, ctB64]
      \<and> base64UrlDecode ivB64 = Inr iv \<and> base64UrlDecode ctB64 = Inr ct
      \<and> gcm_decrypt pf (deriveKey pf secret) iv ct = Some plaintext
      \<and> json_parse pf (text_decode pf plaintext) = Some JNull)"
proof -
  from assms obtain tok where tok: "token = Some tok" "tok \<noteq> []" "secret \<noteq> []"
    by (cases token) (auto simp: unseal_def split: if_splits)
  from assms tok obtain ivB64 ctB64 where sp: "split_on SEPARATOR tok = [ivB64, ctB64]"
    by (auto simp: unseal_def split: list.splits)
  from assms tok sp obtain iv where iv: "base64UrlDecode ivB64 = Inr iv"
    by (cases "base64UrlDecode ivB64") (auto simp: unseal_def)
  from assms tok sp iv obtain ct where ct: "base64UrlDecode ctB64 = Inr ct"
    by (cases "base64UrlDecode ctB64") (auto simp: unseal_def)
  note w = unseal_wellformed [OF tok(2,3) sp iv ct, of pf now]
  from assms tok w obtain plaintext where
    pt: "gcm_decrypt pf (deriveKey pf secret) iv ct = Some plaintext"
    by (cases "gcm_decrypt pf (deriveKey pf secret) iv ct") auto
  from assms tok w pt obtain data where
    d: "json_parse pf (text_decode pf plaintext) = Some data"
    by (cases "json_parse pf (text_decode pf plaintext)") auto
  from assms tok w pt d have "get_exp data = Inl e"
    by (auto split: sum.splits option.splits json.splits if_splits)
  then have "data = JNull \<and> e = TypeError"
    by (cases data) auto
  with tok sp iv ct pt d show ?thesis by blast
qed

section \<open>Another secret\<close>

text \<open>
  Claim C5, as the code has it. When decryption under the key derived from the second
  secret rejects the ciphertext that \<open>seal\<close> made under the first (the tag does not
  verify), \<open>unseal\<close> returns \<open>null\<close>; so it does when the second secret is empty.
  That the secrets differ is not enough: two secrets with the same UTF-8 encoding have
  the same key.
\<close>

theorem unseal_other_secret:
  assumes "seal pf random now payload secret ttl = Inr token"
    and "iv = getRandomValues random (replicate IV_LENGTH 0)"
    and "ct = gcm_encrypt pf (deriveKey pf secret) iv
           (text_encode pf (json_stringify pf (JObj (obj_set payload EXP
              (JNum (js_add (Fin now)
                 (js_mul (case ttl of None \<Rightarrow> TTL_DEFAULT | Some t \<Rightarrow> t) (Fin 1000))))))))"
    and "gcm_decrypt pf (deriveKey pf secret') iv ct = None \<or> secret' = []"
  shows "unseal pf now' (Some token) secret' = Inr None"
proof (cases "secret' = []")
  case True
  then show ?thesis by (simp add: unseal_def)
next
  case False
  obtain ivB64 ctB64 where
    tok: "seal pf random now payload secret ttl = Inr (ivB64 @ [SEPARATOR] @ ctB64)"
    and iv: "base64UrlEncode iv = Inr ivB64"
    and ct: "base64UrlEncode ct = Inr ctB64"
    using seal_token [of pf random now payload secret ttl]
    unfolding assms(2,3) by blast
  from tok assms(1) have "token = ivB64 @ [SEPARATOR] @ ctB64" by simp
  then show ?thesis
    using unseal_sealed [OF False iv ct, of pf now'] assms(4) False by simp
qed

theorem unseal_other_secret_witness:
  "str ''k'' \<noteq> str ''j''
   \<and> seal demo_platform demo_random 0 [(str ''x'', JNum (Fin 1))] (str ''k'') (Some (Fin 1))
       = Inr (str ''AwoRGB8mLTQ7QklQ.eyJ4IjoxLCJfZXhwIjoxMDAwfQMKERgfJi00O0JJUGsAAAA'')
   \<and> unseal demo_platform 500
        (Some (str ''AwoRGB8mLTQ7QklQ.eyJ4IjoxLCJfZXhwIjoxMDAwfQMKERgfJi00O0JJUGsAAAA''))
        (str ''j'')
       = Inr None"
proof -
  have h4: "gcm_decrypt demo_platform (deriveKey demo_platform (str ''j''))
      (getRandomValues demo_random (replicate IV_LENGTH 0))
      (gcm_encrypt demo_platform (deriveKey demo_platform (str ''k''))
         (getRandomValues demo_random (replicate IV_LENGTH 0))
         (text_encode demo_platform (json_stringify demo_platform
            (JObj (obj_set [(str ''x'', JNum (Fin 1))] EXP
               (JNum (js_add (Fin 0)
                  (js_mul (case Some (Fin 1) of None \<Rightarrow> TTL_DEFAULT | Some t \<Rightarrow> t)
                     (Fin 1000)))))))))
      = None"
    unfolding demo_iv demo_fields(5) demo_key demo_encrypt_def demo_tag_k
    by (rule demo_token_decrypt_j)
  have d: "str ''k'' \<noteq> str ''j''" by simp
  show ?thesis
    using d demo_seal_x unseal_other_secret [OF demo_seal_x refl refl disjI1 [OF h4], of 500]
    by blast
qed

text \<open>Claim C5 as stated fails: the secret that is one unpaired surrogate (the code
  unit 55296, U+D800) and the secret that is the replacement character (the code unit
  65533, U+FFFD) are different and not empty, \<^verbatim>\<open>TextEncoder\<close> writes both as the
  bytes EF BF BD, so they have one key, and \<open>unseal\<close> with the second returns the
  payload sealed with the first.\<close>

theorem unseal_same_key_counterexample:
  "[55296] \<noteq> [65533 :: code_unit]
   \<and> utf8_encode [55296] = utf8_encode [65533]
   \<and> seal demo_platform demo_random 0 [(str ''x'', JNum (Fin 1))] [55296] (Some (Fin 1))
       = Inr (str ''AwoRGB8mLTQ7QklQ.eyJ4IjoxLCJfZXhwIjoxMDAwfQMKERgfJi00O0JJUO-_vQA'')
   \<and> unseal demo_platform 500
        (Some (str ''AwoRGB8mLTQ7QklQ.eyJ4IjoxLCJfZXhwIjoxMDAwfQMKERgfJi00O0JJUO-_vQA''))
        [65533]
       = Inr (Some (JObj [(str ''x'', JNum (Fin 1))]))
   \<and> unseal demo_platform 500
        (Some (str ''AwoRGB8mLTQ7QklQ.eyJ4IjoxLCJfZXhwIjoxMDAwfQMKERgfJi00O0JJUO-_vQA''))
        [65533]
       \<noteq> Inr None"
proof -
  have e: "utf8_encode [55296] = utf8_encode [65533]"
    by (simp add: utf8_encode.simps utf8_bytes_def is_high_surrogate_def is_low_surrogate_def)
  have "unseal demo_platform 500
        (Some (str ''AwoRGB8mLTQ7QklQ.eyJ4IjoxLCJfZXhwIjoxMDAwfQMKERgfJi00O0JJUO-_vQA''))
        [65533]
       = Inr (Some (JObj [(str ''x'', JNum (Fin 1))]))"
    using unseal_decrypted [OF _ _ demo_surrogate_split demo_token_iv demo_surrogate_ct
        demo_token_decrypt_surrogate demo_token_parse, of 500]
    by (simp add: EXP_def)
  with e demo_seal_surrogate show ?thesis by simp
qed

section \<open>The reserved field\<close>

text \<open>
  Claim C7. For a payload that carries a property \<open>_exp\<close> of its own: the envelope
  that \<open>seal\<close> encrypts has the computed expiration under \<open>_exp\<close>, and the token is
  the same whatever value the caller's \<open>_exp\<close> has, so that value is not in it;
  \<open>unseal\<close> returns the payload without \<open>_exp\<close>. Both calls return, neither
  throws.
\<close>

theorem seal_unseal_reserved_field:
  assumes "map_of payload EXP = Some v"
    and "secret \<noteq> []"
    and "exp = js_add (Fin now) (js_mul ttl (Fin 1000))"
    and "\<not> js_less exp (Fin now')"
    and "data = JObj (obj_set payload EXP (JNum exp))"
    and "plaintext = text_encode pf (json_stringify pf data)"
    and "iv = getRandomValues random (replicate IV_LENGTH 0)"
    and "gcm_decrypt pf (deriveKey pf secret) iv
           (gcm_encrypt pf (deriveKey pf secret) iv plaintext) = Some plaintext"
    and "json_parse pf (text_decode pf plaintext) = Some data"
  shows "map_of (obj_set payload EXP (JNum exp)) EXP = Some (JNum exp)
    \<and> seal pf random now (obj_set payload EXP w) secret (Some ttl)
        = seal pf random now payload secret (Some ttl)
    \<and> (\<exists>token. seal pf random now payload secret (Some ttl) = Inr token
         \<and> unseal pf now' (Some token) secret
             = Inr (Some (JObj (filter (\<lambda>p. fst p \<noteq> EXP) payload))))
    \<and> map_of (filter (\<lambda>p. fst p \<noteq> EXP) payload) EXP = None"
proof -
  have "\<exists>token. seal pf random now payload secret (Some ttl) = Inr token
     \<and> unseal pf now' (Some token) secret =
         (if js_less exp (Fin now') then Inr None
          else Inr (Some (JObj (filter (\<lambda>p. fst p \<noteq> EXP) payload))))"
    by (rule unseal_seal [OF assms(2) _ assms(5-9)]) (simp add: assms(3))
  with assms(4) have "\<exists>token. seal pf random now payload secret (Some ttl) = Inr token
     \<and> unseal pf now' (Some token) secret
         = Inr (Some (JObj (filter (\<lambda>p. fst p \<noteq> EXP) payload)))"
    by auto
  moreover have "seal pf random now (obj_set payload EXP w) secret (Some ttl)
        = seal pf random now payload secret (Some ttl)"
    by (simp add: seal_def obj_set_twice)
  moreover have "map_of (filter (\<lambda>p. fst p \<noteq> EXP) payload) EXP = None"
    using filter_no_key [of EXP payload] by (simp add: map_of_eq_None_iff)
  ultimately show ?thesis by (simp add: map_of_obj_set)
qed

lemma demo_envelope_exp:
  "json_parse demo_platform (text_decode demo_platform (text_encode demo_platform
      (json_stringify demo_platform
         (JObj (obj_set [(EXP, JNum (Fin 5)), (str ''x'', JNum (Fin 1))] EXP
            (JNum (js_add (Fin 0) (js_mul (Fin 1) (Fin 1000)))))))))
      = Some (JObj (obj_set [(EXP, JNum (Fin 5)), (str ''x'', JNum (Fin 1))] EXP
            (JNum (js_add (Fin 0) (js_mul (Fin 1) (Fin 1000))))))"
  by (simp add: demo_fields demo_stringify_def demo_json_def EXP_def comp_def
      utf8_encode_ascii double_of_int_def)

theorem seal_unseal_reserved_field_witness:
  "map_of [(EXP, JNum (Fin 5)), (str ''x'', JNum (Fin 1))] EXP = Some (JNum (Fin 5))
   \<and> js_add (Fin 0) (js_mul (Fin 1) (Fin 1000)) = Fin 1000
   \<and> seal demo_platform demo_random 0
        (obj_set [(EXP, JNum (Fin 5)), (str ''x'', JNum (Fin 1))] EXP (JNum (Fin 77)))
        (str ''k'') (Some (Fin 1))
       = seal demo_platform demo_random 0 [(EXP, JNum (Fin 5)), (str ''x'', JNum (Fin 1))]
           (str ''k'') (Some (Fin 1))
   \<and> (\<exists>token.
         seal demo_platform demo_random 0 [(EXP, JNum (Fin 5)), (str ''x'', JNum (Fin 1))]
           (str ''k'') (Some (Fin 1)) = Inr token
       \<and> unseal demo_platform 500 (Some token) (str ''k'')
           = Inr (Some (JObj [(str ''x'', JNum (Fin 1))])))"
proof -
  have h1: "map_of [(EXP, JNum (Fin 5)), (str ''x'', JNum (Fin 1))] EXP = Some (JNum (Fin 5))"
    by simp
  have h2: "str ''k'' \<noteq> []" by simp
  have x: "js_add (Fin 0) (js_mul (Fin 1) (Fin 1000)) = Fin 1000"
    by (simp add: double_of_int_def)
  have h4: "\<not> js_less (js_add (Fin 0) (js_mul (Fin 1) (Fin 1000))) (Fin 500)"
    unfolding x by simp
  have h8: "gcm_decrypt demo_platform key iv (gcm_encrypt demo_platform key iv pt) = Some pt"
    for key iv pt by (simp add: demo_fields demo_decrypt_encrypt)
  have f: "filter (\<lambda>p. fst p \<noteq> EXP) [(EXP, JNum (Fin 5)), (str ''x'', JNum (Fin 1))]
      = [(str ''x'', JNum (Fin 1))]"
    by (simp add: EXP_def)
  show ?thesis
    using h1 x seal_unseal_reserved_field [OF h1 h2 refl h4 refl refl refl h8 demo_envelope_exp,
        of demo_random "JNum (Fin 77)"]
    unfolding f by blast
qed

section \<open>Wire format\<close>

text \<open>
  Claim C8. Every call of \<open>seal\<close> returns a token \<open>ivB64.ctB64\<close>: the separator
  occurs in it exactly once, splitting on it gives the two components, every
  character of both components is a letter, a digit, \<open>-\<close> or \<open>_\<close> (so none is
  \<open>+\<close>, \<open>/\<close> or \<open>=\<close>), and the first component decodes to the 12 bytes of the
  initialization vector.
\<close>

theorem seal_wire_format:
  "\<exists>ivB64 ctB64 iv.
      seal pf random now payload secret ttl = Inr (ivB64 @ [SEPARATOR] @ ctB64)
    \<and> split_on SEPARATOR (ivB64 @ [SEPARATOR] @ ctB64) = [ivB64, ctB64]
    \<and> count_list (ivB64 @ [SEPARATOR] @ ctB64) SEPARATOR = 1
    \<and> set ivB64 \<subseteq> set b64url_alphabet \<and> set ctB64 \<subseteq> set b64url_alphabet
    \<and> of_char CHR ''+'' \<notin> set b64url_alphabet \<and> of_char CHR ''/'' \<notin> set b64url_alphabet
    \<and> of_char CHR ''='' \<notin> set b64url_alphabet
    \<and> base64UrlDecode ivB64 = Inr iv \<and> length iv = 12
    \<and> iv = getRandomValues random (replicate IV_LENGTH 0)"
proof -
  let ?iv = "getRandomValues random (replicate IV_LENGTH 0)"
  obtain ivB64 ctB64 ct where
    tok: "seal pf random now payload secret ttl = Inr (ivB64 @ [SEPARATOR] @ ctB64)"
    and iv: "base64UrlEncode ?iv = Inr ivB64"
    and ct: "base64UrlEncode ct = Inr ctB64"
    using seal_token [of pf random now payload secret ttl] by blast
  have sp: "split_on SEPARATOR (ivB64 @ [SEPARATOR] @ ctB64) = [ivB64, ctB64]"
    by (rule split_on_two)
      (rule base64UrlEncode_no_separator [OF iv], rule base64UrlEncode_no_separator [OF ct])
  have "length (split_on SEPARATOR (ivB64 @ [SEPARATOR] @ ctB64))
      = Suc (count_list (ivB64 @ [SEPARATOR] @ ctB64) SEPARATOR)"
    by (rule length_split_on)
  then have cnt: "count_list (ivB64 @ [SEPARATOR] @ ctB64) SEPARATOR = 1"
    unfolding sp by simp
  have alpha: "of_char CHR ''+'' \<notin> set b64url_alphabet" "of_char CHR ''/'' \<notin> set b64url_alphabet"
    "of_char CHR ''='' \<notin> set b64url_alphabet"
    by (simp_all add: b64url_alphabet_def)
  have len: "length ?iv = 12"
    by (simp add: getRandomValues_def IV_LENGTH_def)
  show ?thesis
    using tok sp cnt alpha len base64UrlEncode_alphabet [OF iv] base64UrlEncode_alphabet [OF ct]
      base64UrlDecode_encode [OF iv]
    by blast
qed

theorem seal_wire_format_witness:
  "\<exists>ivB64 ctB64 iv.
      seal demo_platform demo_random 0 [(str ''x'', JNum (Fin 1))] (str ''k'') (Some (Fin 1))
        = Inr (ivB64 @ [SEPARATOR] @ ctB64)
    \<and> split_on SEPARATOR (ivB64 @ [SEPARATOR] @ ctB64) = [ivB64, ctB64]
    \<and> count_list (ivB64 @ [SEPARATOR] @ ctB64) SEPARATOR = 1
    \<and> set ivB64 \<subseteq> set b64url_alphabet \<and> set ctB64 \<subseteq> set b64url_alphabet
    \<and> base64UrlDecode ivB64 = Inr iv \<and> length iv = 12"
  using seal_wire_format [of demo_platform demo_random 0 "[(str ''x'', JNum (Fin 1))]" "str ''k''" "Some (Fin 1)"]
  by blast

end
